theory Spec2Isabelle
  imports Complex_Main "HOL-Library.Sublist" "HOL-Library.Code_Target_Numeral"
begin

section \<open>The installers of the launcher: a shallow embedding\<close>

text \<open>
  The repository holds four installer classes (\<open>MacExtrasInstaller\<close>, \<open>TSOInstaller\<close>,
  \<open>SimitoneInstaller\<close>, \<open>UpdateInstaller\<close>) and the event handlers of the main process
  (\<open>Events\<close>). Each installer runs its steps one after the other, reports progress to the
  user interface, and removes its download when it is done.

  The embedding follows the classes method by method. What a method does to the outside
  (files, interface calls) is explicit: a method takes the object \<open>this\<close> and the world and
  returns both. What the outside answers (whether a download failed, which error a
  directory creation gave, which files an archive holds) is an input of the model, so
  that every theorem holds for every answer.
\<close>

subsection \<open>Files\<close>

text \<open>
  The installers use three calls of Node's \<open>fs\<close>: \<open>stat\<close>, \<open>unlink\<close> and (through
  \<open>fs-extra\<close>) \<open>pathExists\<close>. The filesystem is the set of paths that exist, and a set
  of paths that cannot be removed at present (a file another handle keeps open, for
  which \<open>unlink\<close> reports an error and leaves the file where it is). \<open>stat\<close> reports an
  error exactly for a path that does not exist. The callbacks of \<open>stat\<close> and \<open>unlink\<close> run
  later in the source; the model runs a call and its callback as one step.
\<close>

type_synonym path = string

record filesystem =
  existing :: "path set"
  locked :: "path set"

datatype errno = ENOENT | EBUSY

text \<open>\<open>fs.stat(p, cb)\<close>: the \<open>err\<close> given to \<open>cb\<close>, \<open>None\<close> for \<open>null\<close>.\<close>

definition fs_stat :: "filesystem \<Rightarrow> path \<Rightarrow> errno option" where
  "fs_stat fs p = (if p \<in> existing fs then None else Some ENOENT)"

text \<open>\<open>fs.unlink(p, cb)\<close>: the \<open>err\<close> given to \<open>cb\<close>, and the filesystem afterwards.\<close>

definition fs_unlink :: "filesystem \<Rightarrow> path \<Rightarrow> errno option \<times> filesystem" where
  "fs_unlink fs p =
     (if p \<notin> existing fs then (Some ENOENT, fs)
      else if p \<in> locked fs then (Some EBUSY, fs)
      else (None, fs\<lparr>existing := existing fs - {p}\<rparr>))"

text \<open>
  \<open>fs-extra\<close>'s \<open>pathExists(p)\<close> resolves with a boolean and never rejects; the result
  type keeps the rejection the source's \<open>try\<close>/\<open>catch\<close> is written for.
\<close>

definition pathExists :: "filesystem \<Rightarrow> path \<Rightarrow> errno + bool" where
  "pathExists fs p = Inr (p \<in> existing fs)"

subsection \<open>Promises\<close>

text \<open>
  A promise that settles is \<open>Resolved v\<close> or \<open>Rejected e\<close>; one whose \<open>resolve\<close> and
  \<open>reject\<close> are never called stays \<open>Pending\<close>. The reasons the installers
  reject with are a string of the locale table (\<open>FSO_NETWORK_ERROR\<close>), a literal of the
  source, the error of an outside call (\<open>ensureDir\<close>, \<open>mkdirp\<close>, the unzip stream, the
  registry, the release lookup), passed on as it came, or the cabinet extractor's error
  wrapped in the text \<open>The Sims Online extraction failed: \<close>.
\<close>

datatype error =
    FSO_NETWORK_ERROR
  | UpdateDownloadFailed
  | External string
  | TSOExtractionFailed string

datatype 'a promise = Resolved 'a | Rejected error | Pending

subsection \<open>Removing the download\<close>

text \<open>
  \<open>cleanup()\<close> of \<open>MacExtrasInstaller\<close>, \<open>SimitoneInstaller\<close> and \<open>UpdateInstaller\<close>:
  \<^verbatim>\<open>
  fs.stat( this.tempPath, ( err, _stats ) => {
    if ( err ) { return; }
    fs.unlink( this.tempPath, function( err ) { if ( err ) return console.error( err ); } );
  } );
  \<close>
  The three differ in the path (\<open>this.tempPath\<close>, or the literal \<open>temp/installer.exe\<close> of
  the update installer) and in what they print, which the model does not keep.
\<close>

definition cleanup :: "path \<Rightarrow> filesystem \<Rightarrow> filesystem" where
  "cleanup tempPath fs =
     (case fs_stat fs tempPath of
        Some err \<Rightarrow> fs
      | None \<Rightarrow> (case fs_unlink fs tempPath of (err, fs') \<Rightarrow> fs'))"

text \<open>
  Modelled from the spec: \<open>this.dl.cleanup()\<close> of the download module (\<open>../download\<close>,
  not among the source files), which \<open>MacExtrasInstaller\<close> and \<open>TSOInstaller\<close> call in
  \<open>end\<close>, \<open>error\<close> and \<open>extractCabs\<close>. The spec has the download leave its file "for the
  owning pipeline to remove via an explicit cleanup call": the call removes the file the
  download writes to (its \<open>to\<close>) when the file is there.
\<close>

definition dl_cleanup :: "path \<Rightarrow> filesystem \<Rightarrow> filesystem" where
  "dl_cleanup to fs = cleanup to fs"

subsection \<open>Is the component installed?\<close>

text \<open>
  \<open>TSOInstaller.isInstalledInPath\<close> resolves with \<open>err === null\<close> for the \<open>stat\<close> of
  \<open>this.path + '/TSOClient/TSOClient.exe'\<close>; \<open>SimitoneInstaller.isInstalledInPath\<close> with
  \<open>err == null\<close> for \<open>this.path + '\\Simitone.Windows.exe'\<close>. Neither calls \<open>reject\<close>.
\<close>

definition tso_probe :: "path \<Rightarrow> path" where
  "tso_probe p = p @ ''/TSOClient/TSOClient.exe''"

definition simitone_probe :: "path \<Rightarrow> path" where
  "simitone_probe p = p @ [CHR 0x5C] @ ''Simitone.Windows.exe''"

definition tso_isInstalledInPath :: "path \<Rightarrow> filesystem \<Rightarrow> bool promise" where
  "tso_isInstalledInPath p fs = Resolved (fs_stat fs (tso_probe p) = None)"

definition simitone_isInstalledInPath :: "path \<Rightarrow> filesystem \<Rightarrow> bool promise" where
  "simitone_isInstalledInPath p fs = Resolved (fs_stat fs (simitone_probe p) = None)"

subsection \<open>Numbers and their text\<close>

text \<open>
  A JavaScript number is an IEEE 754 double: a finite value, \<open>NaN\<close> or an infinity. A
  finite value is the rational it stands for. \<open>/\<close> and \<open>*\<close> give the exact result
  rounded to the nearest double, a tie going to the neighbour with the even significand,
  and an infinity when the rounded result lies beyond the largest double. The sign of
  zero is not kept. A numeric string (\<open>toFixed\<close> returns one) stands for the number it
  converts to, which is what \<open>isNaN\<close>, \<open><\<close>, \<open>==\<close> and \<open>/\<close> see.
\<close>

datatype jsnum = Num rat | NaN | PosInfinity | NegInfinity

text \<open>
  \<open>binade x\<close> is the exponent \<open>e\<close> with \<open>2^e \<le> |x| < 2^(e+1)\<close>, found from the lengths of
  numerator and denominator. A double has 53 significant bits and no exponent below
  \<open>-1022\<close>, so the doubles around \<open>x\<close> are the multiples of \<open>2^(max e (-1022) - 52)\<close>, and
  \<open>fl x\<close> is the nearest of them.
\<close>

fun bit_length :: "nat \<Rightarrow> nat" where
  "bit_length n = (if n = 0 then 0 else Suc (bit_length (n div 2)))"

declare bit_length.simps [simp del]

definition binade :: "rat \<Rightarrow> int" where
  "binade x =
     (case quotient_of \<bar>x\<bar> of (p, q) \<Rightarrow>
        let d = int (bit_length (nat p)) - int (bit_length (nat q))
        in if 2 powi d \<le> \<bar>x\<bar> then d else d - 1)"

definition round_half_even :: "rat \<Rightarrow> int" where
  "round_half_even q =
     (let f = \<lfloor>q\<rfloor>; r = q - of_int f
      in if r < 1 / 2 then f else if 1 / 2 < r then f + 1 else if even f then f else f + 1)"

definition fl :: "rat \<Rightarrow> rat" where
  "fl x =
     (if x = 0 then 0
      else let u = 2 powi (max (binade x) (- 1022) - 52)
           in of_int (round_half_even (x / u)) * u)"

text \<open>The double for an exact result \<open>x\<close>: rounded, or an infinity on overflow.\<close>

definition js_number :: "rat \<Rightarrow> jsnum" where
  "js_number x =
     (if 2 ^ 1024 \<le> fl x then PosInfinity
      else if fl x \<le> - (2 ^ 1024) then NegInfinity
      else Num (fl x))"

definition isNaN :: "jsnum \<Rightarrow> bool" where
  "isNaN x = (x = NaN)"

text \<open>\<open>x < c\<close> and \<open>x == c\<close> for a finite literal \<open>c\<close>.\<close>

definition js_less :: "jsnum \<Rightarrow> rat \<Rightarrow> bool" where
  "js_less x c = (case x of Num a \<Rightarrow> a < c | NaN \<Rightarrow> False | PosInfinity \<Rightarrow> False | NegInfinity \<Rightarrow> True)"

definition js_eq :: "jsnum \<Rightarrow> rat \<Rightarrow> bool" where
  "js_eq x c = (x = Num c)"

text \<open>\<open>x / c\<close> and \<open>x * c\<close> for a finite literal \<open>c > 0\<close> (the source has \<open>1268\<close> and \<open>100\<close>).\<close>

definition js_div :: "jsnum \<Rightarrow> rat \<Rightarrow> jsnum" where
  "js_div x c = (case x of Num a \<Rightarrow> js_number (a / c) | NaN \<Rightarrow> NaN
                  | PosInfinity \<Rightarrow> PosInfinity | NegInfinity \<Rightarrow> NegInfinity)"

definition js_mul :: "jsnum \<Rightarrow> rat \<Rightarrow> jsnum" where
  "js_mul x c = (case x of Num a \<Rightarrow> js_number (a * c) | NaN \<Rightarrow> NaN
                  | PosInfinity \<Rightarrow> PosInfinity | NegInfinity \<Rightarrow> NegInfinity)"

text \<open>
  \<open>x.toFixed(0)\<close>: the integer nearest to the exact value of the double, a tie going
  away from zero; \<open>NaN\<close> and the infinities give the strings \<open>NaN\<close>, \<open>Infinity\<close> and
  \<open>-Infinity\<close>.
\<close>

definition round_half_away :: "rat \<Rightarrow> int" where
  "round_half_away a = (if 0 \<le> a then \<lfloor>a + 1 / 2\<rfloor> else - \<lfloor>- a + 1 / 2\<rfloor>)"

definition toFixed0 :: "jsnum \<Rightarrow> jsnum" where
  "toFixed0 x = (case x of Num a \<Rightarrow> Num (of_int (round_half_away a)) | NaN \<Rightarrow> NaN
                   | PosInfinity \<Rightarrow> PosInfinity | NegInfinity \<Rightarrow> NegInfinity)"

text \<open>The decimal text of an integer, as \<open>'FSOProgressItem' + this.id\<close> appends it.\<close>

definition digit_char :: "nat \<Rightarrow> char" where
  "digit_char d = char_of (48 + d)"

fun show_nat :: "nat \<Rightarrow> string" where
  "show_nat n = (if n < 10 then [digit_char n] else show_nat (n div 10) @ [digit_char (n mod 10)])"

declare show_nat.simps [simp del]

definition show_int :: "int \<Rightarrow> string" where
  "show_int i = (if i < 0 then CHR ''-'' # show_nat (nat (- i)) else show_nat (nat i))"

text \<open>\<open>s.replace(pat, rep)\<close> for a string \<open>pat\<close>: the first occurrence only.\<close>

fun replace_first :: "string \<Rightarrow> string \<Rightarrow> string \<Rightarrow> string" where
  "replace_first pat rep [] = (if pat = [] then rep else [])"
| "replace_first pat rep (c # cs) =
     (if prefix pat (c # cs) then rep @ drop (length pat) (c # cs)
      else c # replace_first pat rep cs)"

subsection \<open>The installer object, the constants and the interface\<close>

text \<open>
  One record holds the fields the four classes give \<open>this\<close>: \<open>id\<close> (here \<open>id'\<close>),
  \<open>path\<close>, \<open>haltProgress\<close>, \<open>tempPath\<close> (\<open>tempFilePath\<close> in \<open>TSOInstaller\<close>; the literal
  \<open>temp/installer.exe\<close> of \<open>UpdateInstaller\<close>), \<open>parentComponent\<close> (\<open>MacExtrasInstaller\<close>
  only) and \<open>simitoneVersion\<close> (\<open>SimitoneInstaller\<close> only). The field \<open>dl\<close> is the
  download; what it answers is an input of the steps below.
\<close>

record installer =
  id' :: int
  path :: string
  haltProgress :: bool
  tempPath :: path
  parentComponent :: string
  simitoneVersion :: string

text \<open>
  The tables \<open>constants\<close> (\<open>temp\<close>, \<open>appData\<close>) and the helper \<open>strFormat\<close> are not among
  the source files: their values are parameters. \<open>temp_MacExtras i\<close> is
  \<open>strFormat(temp.MacExtras, i)\<close>; \<open>win32\<close> is \<open>process.platform === 'win32'\<close>;
  \<open>updateLocation\<close> is \<open>FSOLauncher.updateLocation\<close>.
\<close>

record constants =
  appData :: string
  win32 :: bool
  temp_MacExtras :: "int \<Rightarrow> path"
  temp_TSO_path :: string
  temp_TSO_file :: string
  temp_TSO_extractionFolder :: string
  temp_TSO_firstCab :: string
  temp_TSO_rootCab :: string
  updateLocation :: string

text \<open>
  The texts shown come from the locale table, which is not among the source files. A
  message is the template the source fills and the values it fills in; a literal of the
  source is \<open>Text\<close>.
  \<^item> \<open>Downloading mb size p\<close>: \<open>DL_CLIENT_FILES mb MB X_OUT_OF_X size MB (p%)\<close>;
  \<^item> \<open>DownloadingInstaller mb size p\<close>: the same with the literal
    \<open>Downloading installation files... \<close> in front;
  \<^item> \<open>ExtractingFile f\<close>: \<open>EXTRACTING_CLIENT_FILES + ' ' + f\<close>;
  \<^item> \<open>ExtractingCab file current\<close>: \<open>Extracting file (basename(current))\<close>;
  \<^item> \<open>FailedInstallationOf c\<close>: \<open>strFormat(FSO_FAILED_INSTALLATION, c)\<close>.
\<close>

datatype message =
    Text string
  | Downloading jsnum jsnum jsnum
  | DownloadingInstaller jsnum jsnum jsnum
  | EXTRACTING_CLIENT_FILES
  | ExtractingFile string
  | ExtractingCab string string
  | INSTALLATION_FINISHED
  | FSO_FAILED_INSTALLATION
  | FailedInstallationOf string
  | TSO_FAILED_INSTALLATION

datatype subtitle = Subtitle string | INS_IN string

text \<open>
  What an installer does to the interface and to the launcher, in the order it does it:
  \<open>addProgressItem(key, title, subtitle, message, percentage)\<close>, \<open>setProgressBar\<close>,
  \<open>stopProgressItem(key)\<close>, the calls of \<open>SimitoneInstaller.end\<close> and \<open>error\<close> on the
  launcher and on \<open>Modal\<close>, the closing timer and the \<open>exec\<close> of \<open>UpdateInstaller\<close>, and
  the call of the function \<open>unzipgc\<close> that \<open>unzip\<close> hands back.
\<close>

datatype event =
    AddProgressItem string string subtitle message jsnum
  | SetProgressBar jsnum
  | StopProgressItem string
  | UpdateInstalledPrograms
  | RemoveActiveTask string
  | SetConfiguration "string list"
  | ShowInstalled string
  | ShowFailedInstall string error
  | ShowFailedUpdateDownload
  | CloseWindowLater
  | ExecInstaller
  | UnzipGc

record world =
  disk :: filesystem
  ui :: "event list"

definition emit :: "event list \<Rightarrow> world \<Rightarrow> world" where
  "emit evs w = w\<lparr>ui := ui w @ evs\<rparr>"

definition on_disk :: "(filesystem \<Rightarrow> filesystem) \<Rightarrow> world \<Rightarrow> world" where
  "on_disk f w = w\<lparr>disk := f (disk w)\<rparr>"

subsection \<open>Constructors\<close>

text \<open>
  Every constructor sets \<open>this.id = Math.floor(Date.now() / 1000)\<close>; \<open>now\<close> is
  \<open>Date.now()\<close>, the milliseconds since 1970. On integers \<open>div\<close> rounds down as
  \<open>Math.floor\<close> does.
\<close>

definition run_id :: "int \<Rightarrow> int" where
  "run_id now = now div 1000"

definition MacExtrasInstaller :: "constants \<Rightarrow> int \<Rightarrow> string \<Rightarrow> string option \<Rightarrow> installer" where
  "MacExtrasInstaller C now p parent =
     \<lparr>id' = run_id now, path = p, haltProgress = False,
      tempPath = temp_MacExtras C (run_id now),
      parentComponent = (case parent of None \<Rightarrow> ''FreeSO'' | Some c \<Rightarrow> c),
      simitoneVersion = []\<rparr>"

definition TSOInstaller :: "constants \<Rightarrow> int \<Rightarrow> string \<Rightarrow> installer" where
  "TSOInstaller C now p =
     \<lparr>id' = run_id now, path = p, haltProgress = False,
      tempPath = temp_TSO_path C @ ''/'' @ temp_TSO_file C,
      parentComponent = [], simitoneVersion = []\<rparr>"

definition SimitoneInstaller :: "int \<Rightarrow> string \<Rightarrow> installer" where
  "SimitoneInstaller now p =
     \<lparr>id' = run_id now, path = p, haltProgress = False,
      tempPath = ''temp/artifacts-simitone-'' @ show_int (run_id now) @ ''.zip'',
      parentComponent = [], simitoneVersion = []\<rparr>"

definition UpdateInstaller :: "int \<Rightarrow> installer" where
  "UpdateInstaller now =
     \<lparr>id' = run_id now, path = [], haltProgress = False,
      tempPath = ''temp/installer.exe'',
      parentComponent = [], simitoneVersion = []\<rparr>"

subsection \<open>createProgressItem\<close>

text \<open>
  \<open>createProgressItem(message, percentage)\<close> calls \<open>addProgressItem\<close> with the run's key,
  a title, a subtitle, the message and the percentage; the two newer classes also set
  the progress bar. \<open>TSOInstaller\<close> passes a sixth argument \<open>extraction\<close>, which no
  caller supplies (it is \<open>undefined\<close>) and the model leaves out.
\<close>

definition textPath :: "constants \<Rightarrow> installer \<Rightarrow> string" where
  "textPath C this =
     (if win32 C then path this else replace_first (appData C @ ''/'') [] (path this))"

text \<open>\<open>percentage == 100 ? 2 : percentage / 100\<close>, the argument of \<open>setProgressBar\<close>.\<close>

definition progressBar :: "jsnum \<Rightarrow> jsnum" where
  "progressBar percentage = (if js_eq percentage 100 then Num 2 else js_div percentage 100)"

definition mac_key :: "installer \<Rightarrow> string" where
  "mac_key this = ''FSOProgressItem'' @ show_int (id' this)"

definition tso_key :: "installer \<Rightarrow> string" where
  "tso_key this = ''TSOProgressItem'' @ show_int (id' this)"

definition simitone_key :: "installer \<Rightarrow> string" where
  "simitone_key this = ''FSOProgressItem'' @ show_int (id' this)"

definition update_key :: "installer \<Rightarrow> string" where
  "update_key this = ''FSOUpdateProgressItem'' @ show_int (id' this)"

definition mac_createProgressItem ::
  "constants \<Rightarrow> installer \<Rightarrow> message \<Rightarrow> jsnum \<Rightarrow> world \<Rightarrow> world" where
  "mac_createProgressItem C this msg percentage =
     emit [AddProgressItem (mac_key this) (parentComponent this @ '' MacExtras'')
             (INS_IN (textPath C this)) msg percentage,
           SetProgressBar (progressBar percentage)]"

definition tso_createProgressItem ::
  "constants \<Rightarrow> installer \<Rightarrow> message \<Rightarrow> jsnum \<Rightarrow> world \<Rightarrow> world" where
  "tso_createProgressItem C this msg percentage =
     emit [AddProgressItem (tso_key this) ''The Sims Online (FilePlanet)''
             (INS_IN (textPath C this)) msg percentage,
           SetProgressBar (progressBar percentage)]"

definition simitone_createProgressItem :: "installer \<Rightarrow> message \<Rightarrow> jsnum \<Rightarrow> world \<Rightarrow> world" where
  "simitone_createProgressItem this msg percentage =
     emit [AddProgressItem (simitone_key this) (''Simitone Client '' @ simitoneVersion this)
             (Subtitle (''Installing in '' @ path this)) msg percentage]"

definition update_createProgressItem ::
  "constants \<Rightarrow> installer \<Rightarrow> message \<Rightarrow> jsnum \<Rightarrow> world \<Rightarrow> world" where
  "update_createProgressItem C this msg percentage =
     emit [AddProgressItem (update_key this) ''FreeSO Launcher''
             (Subtitle (''Downloading from '' @ updateLocation C)) msg percentage]"

subsection \<open>What the outside answers\<close>

text \<open>
  A tick of the progress timer reads \<open>dl.getProgress()\<close>, \<open>dl.getProgressMB()\<close> and
  \<open>dl.getSizeMB()\<close>: a sample is the three values, in this order. The download module is
  not among the source files, so nothing is assumed of the values.
\<close>

type_synonym sample = "jsnum \<times> jsnum \<times> jsnum"

text \<open>
  How the download ended when it emitted \<open>end\<close>: \<open>dl.hasFailed()\<close> (\<open>dl.failed\<close> in the
  older classes) is false, or it is true and a partly written file is left or not.
\<close>

datatype download_end = DownloadOk | DownloadFailed bool

text \<open>
  One run's answers of the outside:
  \<^item> \<open>samples\<close>: what the ticks read that ran before the download ended;
  \<^item> \<open>download\<close>: how the download ended;
  \<^item> \<open>mkdir\<close>: the \<open>err\<close> of \<open>ensureDir\<close> (\<open>mkdirp\<close>);
  \<^item> \<open>unzip_files\<close>, \<open>unzipped\<close>, \<open>unzip_error\<close>: the entries the unzip reports, the
    paths it wrote, and the error it ended with, if any;
  \<^item> \<open>read_error\<close>: the error of the stream that reads the downloaded archive in
    \<open>SimitoneInstaller.extract\<close>, if any;
  \<^item> \<open>cabinet\<close>: for the path of a first cabinet that exists, the progress the cabinet
    extractor reports (\<open>cab.file\<close>, \<open>cab.current\<close>) and the \<open>err\<close> of its final
    callback; \<open>cabinet_missing\<close>: the \<open>err\<close> for a path that does not exist;
  \<^item> \<open>registry\<close>: the rejection of \<open>createMaxisEntry\<close> (\<open>createFreeSOEntry\<close>), if any;
  \<^item> \<open>release\<close>: the rejection of \<open>getSimitoneReleaseInfo\<close>, or the \<open>tag_name\<close> of its
    result (\<open>None\<close> for \<open>undefined\<close>).
\<close>

record answers =
  samples :: "sample list"
  download :: download_end
  mkdir :: "string option"
  unzip_files :: "string list"
  unzipped :: "path list"
  unzip_error :: "string option"
  read_error :: "string option"
  cabinet :: "path \<Rightarrow> (string \<times> string) list \<times> string option"
  cabinet_missing :: string
  registry :: "string option"
  release :: "string + string option"

text \<open>
  Modelled from the spec: \<open>dl.run()\<close> of the download module (not among the source
  files). The spec has the download stream "response bytes to a temporary file path" and
  leave "the partially-written temp file" on failure: when the download has ended, its
  file is there after a success, and after a failure if a part was written.
\<close>

definition dl_run :: "path \<Rightarrow> download_end \<Rightarrow> filesystem \<Rightarrow> filesystem" where
  "dl_run to d fs =
     (case d of
        DownloadOk \<Rightarrow> fs\<lparr>existing := insert to (existing fs)\<rparr>
      | DownloadFailed left \<Rightarrow> (if left then fs\<lparr>existing := insert to (existing fs)\<rparr> else fs))"

definition dl_hasFailed :: "download_end \<Rightarrow> bool" where
  "dl_hasFailed d = (d \<noteq> DownloadOk)"

text \<open>The files an unzip writes appear on the disk.\<close>

definition unzip_write :: "path list \<Rightarrow> filesystem \<Rightarrow> filesystem" where
  "unzip_write ps fs = fs\<lparr>existing := existing fs \<union> set ps\<rparr>"

text \<open>
  Modelled from the spec: the cabinet extractor \<open>extract\<close> (\<open>../cabinet\<close>, not among the
  source files). The spec's extractor signals "a descriptive extraction error" for a
  "source archive missing/corrupt": for a path that does not exist the final callback
  gets an error; for one that exists the answer is the run's.
\<close>

definition cabinet_extract ::
  "answers \<Rightarrow> filesystem \<Rightarrow> path \<Rightarrow> (string \<times> string) list \<times> string option" where
  "cabinet_extract A fs from =
     (if from \<in> existing fs then cabinet A from else ([], Some (cabinet_missing A)))"

subsection \<open>The progress timer\<close>

text \<open>
  \<open>updateDownloadProgress()\<close> sets a timer; when it fires, the body below runs. The
  result is the world after the body and whether the body has called
  \<open>updateDownloadProgress()\<close> again (set the next timer).

  \<open>MacExtrasInstaller\<close> and \<open>SimitoneInstaller\<close>:
  \<^verbatim>\<open>
  let p = this.dl.getProgress(); ...
  if ( isNaN( p ) ) p = 0;
  if ( p < 100 ) {
    if ( ! this.haltProgress ) { this.createProgressItem( ..., p ); }
    return this.updateDownloadProgress();
  }
  \<close>
\<close>

definition mac_tick :: "constants \<Rightarrow> installer \<Rightarrow> sample \<Rightarrow> world \<Rightarrow> world \<times> bool" where
  "mac_tick C this s w =
     (case s of (p0, mb, sz) \<Rightarrow>
        let p = (if isNaN p0 then Num 0 else p0) in
        if js_less p 100 then
          (if \<not> haltProgress this
           then mac_createProgressItem C this (Downloading mb sz p) p w else w, True)
        else (w, False))"

definition simitone_tick :: "installer \<Rightarrow> sample \<Rightarrow> world \<Rightarrow> world \<times> bool" where
  "simitone_tick this s w =
     (case s of (p0, mb, sz) \<Rightarrow>
        let p = (if isNaN p0 then Num 0 else p0) in
        if js_less p 100 then
          (if \<not> haltProgress this
           then simitone_createProgressItem this (Downloading mb sz p) p w else w, True)
        else (w, False))"

text \<open>\<open>UpdateInstaller\<close>: the same without the \<open>isNaN\<close> line.\<close>

definition update_tick :: "constants \<Rightarrow> installer \<Rightarrow> sample \<Rightarrow> world \<Rightarrow> world \<times> bool" where
  "update_tick C this s w =
     (case s of (p, mb, sz) \<Rightarrow>
        if js_less p 100 then
          (if \<not> haltProgress this
           then update_createProgressItem C this (DownloadingInstaller mb sz p) p w else w, True)
        else (w, False))"

text \<open>
  \<open>TSOInstaller\<close>:
  \<^verbatim>\<open>
  const mb = this.dl.getProgressMB();
  let p = ( ( mb / 1268 ) * 100 ).toFixed( 0 );
  if ( isNaN( p ) ) p = 0;
  if ( this.haltProgress ) return;
  this.createProgressItem( `... ${mb} MB ... 1268 MB (${p}%)`, p );
  return this.updateDownloadProgress();
  \<close>
\<close>

definition tso_percentage :: "jsnum \<Rightarrow> jsnum" where
  "tso_percentage mb =
     (let p = toFixed0 (js_mul (js_div mb 1268) 100) in if isNaN p then Num 0 else p)"

definition tso_tick :: "constants \<Rightarrow> installer \<Rightarrow> sample \<Rightarrow> world \<Rightarrow> world \<times> bool" where
  "tso_tick C this s w =
     (case s of (p0, mb, sz) \<Rightarrow>
        let p = tso_percentage mb in
        if haltProgress this then (w, False)
        else (tso_createProgressItem C this (Downloading mb (Num 1268) p) p w, True))"

text \<open>
  The timer over the ticks that fire, one sample each: it goes on while a tick sets the
  next timer. The result says whether a timer is still set when the samples are used up.
\<close>

fun poll :: "(sample \<Rightarrow> world \<Rightarrow> world \<times> bool) \<Rightarrow> sample list \<Rightarrow> world \<Rightarrow> world \<times> bool" where
  "poll tick [] w = (w, True)"
| "poll tick (s # ss) w =
     (case tick s w of (w', again) \<Rightarrow> if again then poll tick ss w' else (w', False))"

subsection \<open>Steps\<close>

text \<open>
  A step returns how its promise settled, the object and the world. \<open>and_then\<close> is
  \<open>await\<close> in a \<open>try\<close> block and \<open>.then\<close> in a chain: the next step runs when the one
  before resolved, a rejection passes through to the \<open>catch\<close>, and after a step that
  never settles nothing runs.
\<close>

type_synonym 'a outcome = "'a promise \<times> installer \<times> world"

definition and_then ::
  "'a outcome \<Rightarrow> ('a \<Rightarrow> installer \<Rightarrow> world \<Rightarrow> 'b outcome) \<Rightarrow> 'b outcome" where
  "and_then r f =
     (case r of
        (Resolved v, this, w) \<Rightarrow> f v this w
      | (Rejected e, this, w) \<Rightarrow> (Rejected e, this, w)
      | (Pending, this, w) \<Rightarrow> (Pending, this, w))"

text \<open>\<open>setupDir(dir)\<close>, the same in all classes: \<open>ensureDir\<close> (\<open>mkdirp\<close>) and its \<open>err\<close>.\<close>

definition setupDir :: "answers \<Rightarrow> installer \<Rightarrow> world \<Rightarrow> unit outcome" where
  "setupDir A this w =
     (case mkdir A of Some err \<Rightarrow> (Rejected (External err), this, w)
                    | None \<Rightarrow> (Resolved (), this, w))"

subsection \<open>MacExtrasInstaller\<close>

definition mac_download :: "constants \<Rightarrow> answers \<Rightarrow> installer \<Rightarrow> world \<Rightarrow> unit outcome" where
  "mac_download C A this w =
     (let w1 = fst (poll (mac_tick C this) (samples A) w);
          w2 = on_disk (dl_run (tempPath this) (download A)) w1
      in if dl_hasFailed (download A) then (Rejected FSO_NETWORK_ERROR, this, w2)
         else (Resolved (), this, w2))"

definition mac_extract :: "constants \<Rightarrow> answers \<Rightarrow> installer \<Rightarrow> world \<Rightarrow> unit outcome" where
  "mac_extract C A this w =
     (let w1 = fold (\<lambda>filename. mac_createProgressItem C this (ExtractingFile filename) (Num 100))
                 (unzip_files A) w;
          w2 = on_disk (unzip_write (unzipped A)) w1
      in case unzip_error A of Some err \<Rightarrow> (Rejected (External err), this, w2)
                             | None \<Rightarrow> (Resolved (), this, w2))"

definition mac_end :: "constants \<Rightarrow> installer \<Rightarrow> world \<Rightarrow> world" where
  "mac_end C this w =
     emit [StopProgressItem (mac_key this)]
       (mac_createProgressItem C this INSTALLATION_FINISHED (Num 100)
          (on_disk (dl_cleanup (tempPath this)) w))"

definition mac_error :: "constants \<Rightarrow> error \<Rightarrow> installer \<Rightarrow> world \<Rightarrow> installer \<times> world" where
  "mac_error C err this w =
     (let w1 = on_disk (dl_cleanup (tempPath this)) w;
          this1 = this\<lparr>haltProgress := True\<rparr>;
          w2 = mac_createProgressItem C this1 (FailedInstallationOf ''macOS Extras'') (Num 100) w1
      in (this1, emit [StopProgressItem (mac_key this1)] w2))"

text \<open>
  \<^verbatim>\<open>
  try { await this.step1(); await this.step2(); await this.step3(); this.end(); }
  catch ( err ) { this.error( err ); throw err; }
  \<close>
\<close>

definition mac_steps :: "constants \<Rightarrow> answers \<Rightarrow> installer \<Rightarrow> world \<Rightarrow> unit outcome" where
  "mac_steps C A this w =
     and_then (and_then (mac_download C A this w) (\<lambda>_. setupDir A)) (\<lambda>_. mac_extract C A)"

definition mac_install :: "constants \<Rightarrow> answers \<Rightarrow> installer \<Rightarrow> world \<Rightarrow> unit outcome" where
  "mac_install C A this w =
     (case mac_steps C A this w of
        (Resolved _, this', w') \<Rightarrow> (Resolved (), this', mac_end C this' w')
      | (Rejected err, this', w') \<Rightarrow>
          (case mac_error C err this' w' of (this'', w'') \<Rightarrow> (Rejected err, this'', w''))
      | (Pending, this', w') \<Rightarrow> (Pending, this', w'))"

subsection \<open>UpdateInstaller\<close>

definition update_download :: "constants \<Rightarrow> answers \<Rightarrow> installer \<Rightarrow> world \<Rightarrow> unit outcome" where
  "update_download C A this w =
     (let w1 = fst (poll (update_tick C this) (samples A) w);
          w2 = on_disk (dl_run ''temp/installer.exe'' (download A)) w1
      in if dl_hasFailed (download A)
         then (Rejected UpdateDownloadFailed, this, on_disk (cleanup ''temp/installer.exe'') w2)
         else (Resolved (), this, w2))"

definition update_end :: "constants \<Rightarrow> installer \<Rightarrow> world \<Rightarrow> world" where
  "update_end C this w =
     emit [StopProgressItem (update_key this), CloseWindowLater, ExecInstaller]
       (update_createProgressItem C this (Text ''Download finished. Setup will start...'') (Num 100) w)"

definition update_failed_text :: "constants \<Rightarrow> string" where
  "update_failed_text C =
     ''Failed to download FreeSO Launcher. Try again later, or download from <a target=''
     @ [CHR 0x22] @ ''_blank'' @ [CHR 0x22] @ '' href='' @ [CHR 0x22] @ updateLocation C
     @ [CHR 0x22] @ ''>here</a>.''"

definition update_error :: "constants \<Rightarrow> error \<Rightarrow> installer \<Rightarrow> world \<Rightarrow> unit outcome" where
  "update_error C err this w =
     (let this1 = this\<lparr>haltProgress := True\<rparr>;
          w1 = update_createProgressItem C this1 (Text (update_failed_text C)) (Num 100) w
      in (Rejected err, this1,
          emit [StopProgressItem (update_key this1), ShowFailedUpdateDownload] w1))"

text \<open>\<open>this.step1().then(() => this.end()).catch(ErrorMessage => this.error(ErrorMessage))\<close>\<close>

definition update_install :: "constants \<Rightarrow> answers \<Rightarrow> installer \<Rightarrow> world \<Rightarrow> unit outcome" where
  "update_install C A this w =
     (case update_download C A this w of
        (Resolved _, this', w') \<Rightarrow> (Resolved (), this', update_end C this' w')
      | (Rejected err, this', w') \<Rightarrow> update_error C err this' w'
      | (Pending, this', w') \<Rightarrow> (Pending, this', w'))"

subsection \<open>SimitoneInstaller\<close>

text \<open>\<open>step1\<close>: the release lookup; a \<open>tag_name\<close> that is not \<open>undefined\<close> is kept.\<close>

definition simitone_step1 :: "answers \<Rightarrow> installer \<Rightarrow> world \<Rightarrow> unit outcome" where
  "simitone_step1 A this w =
     (case release A of
        Inl err \<Rightarrow> (Rejected (External err), this, w)
      | Inr tag_name \<Rightarrow>
          (Resolved (),
           (case tag_name of None \<Rightarrow> this | Some t \<Rightarrow> this\<lparr>simitoneVersion := t\<rparr>), w))"

text \<open>
  \<open>download()\<close>: at \<open>end\<close>, \<open>if (this.dl.failed) { this.cleanup(); return reject(...) }\<close>.
\<close>

definition simitone_download :: "answers \<Rightarrow> installer \<Rightarrow> world \<Rightarrow> unit outcome" where
  "simitone_download A this w =
     (let w1 = fst (poll (simitone_tick this) (samples A) w);
          w2 = on_disk (dl_run (tempPath this) (download A)) w1
      in if dl_hasFailed (download A)
         then (Rejected FSO_NETWORK_ERROR, this, on_disk (cleanup (tempPath this)) w2)
         else (Resolved (), this, w2))"

text \<open>
  \<^verbatim>\<open>
  this.createProgressItem(global.locale.EXTRACTING_CLIENT_FILES, 100);
  return new Promise((resolve, reject) => {
    require('fs').createReadStream(this.tempPath).pipe(unzipStream)
      .on('entry', entry => { this.createProgressItem(... + ' ' + entry.path, 100); });
    unzipStream.on('error', err => { //this.cleanup();
                                     return reject(err); });
    unzipStream.on('close', _err => { this.cleanup(); return resolve(); });
  });
  \<close>
  The three listeners are on the unzip stream (\<open>pipe\<close> returns it); the stream that
  reads the archive has none for \<open>error\<close>. When the archive is not there, or reading it
  fails, the unzip stream gets neither \<open>error\<close> nor \<open>close\<close>, and the promise stays
  pending. The unzip stream's \<open>error\<close> rejects, and the call of \<open>cleanup\<close> there is
  commented out; its \<open>close\<close> calls \<open>cleanup\<close> and resolves.
\<close>

definition simitone_extract :: "answers \<Rightarrow> installer \<Rightarrow> world \<Rightarrow> unit outcome" where
  "simitone_extract A this w =
     (let w0 = simitone_createProgressItem this EXTRACTING_CLIENT_FILES (Num 100) w in
      if tempPath this \<notin> existing (disk w0) then (Pending, this, w0)
      else
        let w1 = fold (\<lambda>entry. simitone_createProgressItem this (ExtractingFile entry) (Num 100))
                   (unzip_files A) w0;
            w2 = on_disk (unzip_write (unzipped A)) w1
        in (case read_error A of
              Some err \<Rightarrow> (Pending, this, w2)
            | None \<Rightarrow>
                (case unzip_error A of
                   Some err \<Rightarrow> (Rejected (External err), this, w2)
                 | None \<Rightarrow> (Resolved (), this, on_disk (cleanup (tempPath this)) w2))))"

text \<open>\<open>step5\<close>: the registry entry (\<open>createFreeSOEntry\<close>; \<open>createMaxisEntry\<close> for TSO).\<close>

definition registry_step :: "answers \<Rightarrow> installer \<Rightarrow> world \<Rightarrow> unit outcome" where
  "registry_step A this w =
     (case registry A of Some err \<Rightarrow> (Rejected (External err), this, w)
                       | None \<Rightarrow> (Resolved (), this, w))"

definition simitone_end :: "installer \<Rightarrow> world \<Rightarrow> world" where
  "simitone_end this w =
     emit ([StopProgressItem (simitone_key this), UpdateInstalledPrograms,
            RemoveActiveTask ''Simitone'']
           @ (if simitoneVersion this \<noteq> []
              then [SetConfiguration [''Game'', ''SimitoneVersion'', simitoneVersion this]]
              else [])
           @ [ShowInstalled ''Simitone''])
       (simitone_createProgressItem this INSTALLATION_FINISHED (Num 100) w)"

definition simitone_error :: "error \<Rightarrow> installer \<Rightarrow> world \<Rightarrow> unit outcome" where
  "simitone_error err this w =
     (let this1 = this\<lparr>haltProgress := True\<rparr>;
          w1 = simitone_createProgressItem this1 FSO_FAILED_INSTALLATION (Num 100) w
      in (Rejected err, this1,
          emit [StopProgressItem (simitone_key this1), RemoveActiveTask ''Simitone'',
                ShowFailedInstall ''Simitone'' err] w1))"

text \<open>
  \<open>this.step1().then(() => this.step2()). ... .then(() => this.step5())
  .then(() => this.end()).catch(ErrorMessage => this.error(ErrorMessage))\<close>
\<close>

definition simitone_steps :: "answers \<Rightarrow> installer \<Rightarrow> world \<Rightarrow> unit outcome" where
  "simitone_steps A this w =
     and_then (and_then (and_then (and_then (simitone_step1 A this w)
       (\<lambda>_. simitone_download A)) (\<lambda>_. setupDir A)) (\<lambda>_. simitone_extract A))
       (\<lambda>_. registry_step A)"

definition simitone_install :: "answers \<Rightarrow> installer \<Rightarrow> world \<Rightarrow> unit outcome" where
  "simitone_install A this w =
     (case simitone_steps A this w of
        (Resolved _, this', w') \<Rightarrow> (Resolved (), this', simitone_end this' w')
      | (Rejected err, this', w') \<Rightarrow> simitone_error err this' w'
      | (Pending, this', w') \<Rightarrow> (Pending, this', w'))"

subsection \<open>TSOInstaller\<close>

text \<open>\<open>download()\<close>: the handler of \<open>end\<close> sets \<open>this.haltProgress = true\<close> first.\<close>

definition tso_download :: "constants \<Rightarrow> answers \<Rightarrow> installer \<Rightarrow> world \<Rightarrow> unit outcome" where
  "tso_download C A this w =
     (let w1 = fst (poll (tso_tick C this) (samples A) w);
          w2 = on_disk (dl_run (tempPath this) (download A)) w1;
          this1 = this\<lparr>haltProgress := True\<rparr>
      in if dl_hasFailed (download A) then (Rejected FSO_NETWORK_ERROR, this1, w2)
         else (Resolved (), this1, w2))"

text \<open>\<open>extractZip()\<close> resolves with the function \<open>unzipgc\<close>, which \<open>extractCabs\<close> calls.\<close>

definition tso_extractZip :: "constants \<Rightarrow> answers \<Rightarrow> installer \<Rightarrow> world \<Rightarrow> unit outcome" where
  "tso_extractZip C A this w =
     (let w0 = tso_createProgressItem C this (Text ''Extracting client files, please wait...'')
                 (Num 100) w;
          w1 = fold (\<lambda>filename. tso_createProgressItem C this (ExtractingFile filename) (Num 100))
                 (unzip_files A) w0;
          w2 = on_disk (unzip_write (unzipped A)) w1
      in case unzip_error A of Some err \<Rightarrow> (Rejected (External err), this, w2)
                             | None \<Rightarrow> (Resolved (), this, w2))"

text \<open>
  \<open>extractCabs\<close> chooses the first cabinet:
  \<^verbatim>\<open>
  let from = `${temp.TSO.path}/${temp.TSO.extractionFolder}/${temp.TSO.firstCab}`;
  try {
    if ( ! await require( 'fs-extra' ).pathExists( from ) ) {
      from = `${temp.TSO.path}/${temp.TSO.extractionFolder}/${temp.TSO.rootCab}`;
    }
  } catch ( err ) { console.error( err ); }
  \<close>
\<close>

definition tso_firstCab :: "constants \<Rightarrow> path" where
  "tso_firstCab C =
     temp_TSO_path C @ ''/'' @ temp_TSO_extractionFolder C @ ''/'' @ temp_TSO_firstCab C"

definition tso_rootCab :: "constants \<Rightarrow> path" where
  "tso_rootCab C =
     temp_TSO_path C @ ''/'' @ temp_TSO_extractionFolder C @ ''/'' @ temp_TSO_rootCab C"

definition tso_cab_from :: "constants \<Rightarrow> filesystem \<Rightarrow> path" where
  "tso_cab_from C fs =
     (case pathExists fs (tso_firstCab C) of
        Inr found \<Rightarrow> (if \<not> found then tso_rootCab C else tso_firstCab C)
      | Inl err \<Rightarrow> tso_firstCab C)"

definition tso_updateExtractionProgress ::
  "constants \<Rightarrow> installer \<Rightarrow> string \<times> string \<Rightarrow> world \<Rightarrow> world" where
  "tso_updateExtractionProgress C this cab w =
     tso_createProgressItem C this (ExtractingCab (fst cab) (snd cab)) (Num 100) w"

text \<open>
  Then the extractor runs on \<open>from\<close>; its final callback is
  \<^verbatim>\<open>
  err => { unzipgc(); this.dl.cleanup();
           if ( err ) return reject( `The Sims Online extraction failed: ${err}` );
           resolve(); }
  \<close>
\<close>

definition tso_extractCabs :: "constants \<Rightarrow> answers \<Rightarrow> installer \<Rightarrow> world \<Rightarrow> unit outcome" where
  "tso_extractCabs C A this w =
     (let from = tso_cab_from C (disk w) in
      case cabinet_extract A (disk w) from of (cabs, err) \<Rightarrow>
        let w1 = fold (tso_updateExtractionProgress C this) cabs w;
            w2 = on_disk (dl_cleanup (tempPath this)) (emit [UnzipGc] w1)
        in (case err of Some e \<Rightarrow> (Rejected (TSOExtractionFailed e), this, w2)
                      | None \<Rightarrow> (Resolved (), this, w2)))"

definition tso_end :: "constants \<Rightarrow> installer \<Rightarrow> world \<Rightarrow> world" where
  "tso_end C this w =
     emit [StopProgressItem (tso_key this)]
       (tso_createProgressItem C this INSTALLATION_FINISHED (Num 100)
          (on_disk (dl_cleanup (tempPath this)) w))"

definition tso_error :: "constants \<Rightarrow> error \<Rightarrow> installer \<Rightarrow> world \<Rightarrow> installer \<times> world" where
  "tso_error C err this w =
     (let w1 = on_disk (dl_cleanup (tempPath this)) w;
          this1 = this\<lparr>haltProgress := True\<rparr>;
          w2 = tso_createProgressItem C this1 TSO_FAILED_INSTALLATION (Num 100) w1
      in (this1, emit [StopProgressItem (tso_key this1)] w2))"

text \<open>
  \<^verbatim>\<open>
  try { await this.step1(); await this.step2(); const unzipgc = await this.step3();
        await this.step4( unzipgc ); await this.step5(); this.end(); }
  catch ( err ) { this.error( err ); throw err; }
  \<close>
\<close>

definition tso_steps :: "constants \<Rightarrow> answers \<Rightarrow> installer \<Rightarrow> world \<Rightarrow> unit outcome" where
  "tso_steps C A this w =
     and_then (and_then (and_then (and_then (tso_download C A this w)
       (\<lambda>_. setupDir A)) (\<lambda>_. tso_extractZip C A)) (\<lambda>_. tso_extractCabs C A))
       (\<lambda>_. registry_step A)"

definition tso_install :: "constants \<Rightarrow> answers \<Rightarrow> installer \<Rightarrow> world \<Rightarrow> unit outcome" where
  "tso_install C A this w =
     (case tso_steps C A this w of
        (Resolved _, this', w') \<Rightarrow> (Resolved (), this', tso_end C this' w')
      | (Rejected err, this', w') \<Rightarrow>
          (case tso_error C err this' w' of (this'', w'') \<Rightarrow> (Rejected err, this'', w''))
      | (Pending, this', w') \<Rightarrow> (Pending, this', w'))"

subsection \<open>Events: the game path dialog\<close>

text \<open>
  The launcher object (\<open>fsolauncher.js\<close>) is not among the source files; \<open>Events\<close> reads
  its array \<open>activeTasks\<close> and calls its methods.
\<close>

record launcher =
  activeTasks :: "string list"

record options =
  component :: string

datatype refusal = SyntaxError | AlreadyInstallingError

text \<open>
  Modelled from the spec: \<open>removeActiveTask\<close> of the launcher, which is not among the
  source files. The spec's marker is "cleared" when a run ends or a dialog is declined:
  the component is no longer in \<open>activeTasks\<close>.
\<close>

definition removeActiveTask :: "string \<Rightarrow> launcher \<Rightarrow> launcher" where
  "removeActiveTask c L = L\<lparr>activeTasks := removeAll c (activeTasks L)\<rparr>"

text \<open>
  Modelled from the spec: the admission of an install request (\<open>install\<close> of the
  launcher, not among the source files). The spec's \<open>admit\<close> "rejects the request with
  AlreadyInstallingError if ActiveTaskSet already marks the component active; otherwise
  marks it active".
\<close>

definition admit :: "string \<Rightarrow> launcher \<Rightarrow> refusal + launcher" where
  "admit c L =
     (if c \<in> set (activeTasks L) then Inl AlreadyInstallingError
      else Inr (L\<lparr>activeTasks := activeTasks L @ [c]\<rparr>))"

text \<open>
  \<^verbatim>\<open>
  onChangeGamePath( e, yes, options ) {
    options = JSON.parse( options );
    if ( yes ) { this.fsolauncher.changeGamePath( options ); }
    else { this.fsolauncher.removeActiveTask( options.component ); }
  }
  \<close>
  \<open>parsed\<close> is what \<open>JSON.parse\<close> gives, \<open>None\<close> when it throws. \<open>changeGamePath\<close> of
  the launcher is a parameter.
\<close>

definition onChangeGamePath ::
  "(options \<Rightarrow> launcher \<Rightarrow> launcher) \<Rightarrow> launcher \<Rightarrow> bool \<Rightarrow> options option \<Rightarrow> refusal + launcher" where
  "onChangeGamePath changeGamePath L yes parsed =
     (case parsed of
        None \<Rightarrow> Inl SyntaxError
      | Some opts \<Rightarrow>
          Inr (if yes then changeGamePath opts L else removeActiveTask (component opts) L))"

subsection \<open>Reading the interface calls of a run\<close>

text \<open>
  A failure notification is a progress item at 100 whose message is one of the failure
  texts: those of the locale table, and the text \<open>UpdateInstaller.error\<close> builds.
  \<open>stops key evs\<close> counts the calls \<open>stopProgressItem(key)\<close>; the failure dialogs are the
  calls of \<open>Modal.showFailedInstall\<close> and \<open>Modal.showFailedUpdateDownload\<close>.
\<close>

definition is_failure_message :: "constants \<Rightarrow> message \<Rightarrow> bool" where
  "is_failure_message C m =
     (case m of FSO_FAILED_INSTALLATION \<Rightarrow> True | FailedInstallationOf c \<Rightarrow> True
              | TSO_FAILED_INSTALLATION \<Rightarrow> True | Text t \<Rightarrow> t = update_failed_text C
              | _ \<Rightarrow> False)"

definition is_failure_item :: "constants \<Rightarrow> event \<Rightarrow> bool" where
  "is_failure_item C ev =
     (case ev of AddProgressItem k t s m pct \<Rightarrow> pct = Num 100 \<and> is_failure_message C m
               | _ \<Rightarrow> False)"

definition failure_items :: "constants \<Rightarrow> event list \<Rightarrow> event list" where
  "failure_items C evs = filter (is_failure_item C) evs"

definition stops :: "string \<Rightarrow> event list \<Rightarrow> nat" where
  "stops key evs = count_list evs (StopProgressItem key)"

definition is_failure_dialog :: "event \<Rightarrow> bool" where
  "is_failure_dialog ev =
     (case ev of ShowFailedInstall c e \<Rightarrow> True | ShowFailedUpdateDownload \<Rightarrow> True
               | _ \<Rightarrow> False)"

definition failure_dialogs :: "event list \<Rightarrow> event list" where
  "failure_dialogs evs = filter is_failure_dialog evs"

subsection \<open>Example values\<close>

text \<open>
  Values for the parameters, used where a theorem is applied to a concrete run: a table
  of constants, an empty world, and the answers of a run in which every step succeeds.
\<close>

definition example_constants :: constants where
  "example_constants =
     \<lparr>appData = ''/Users/sim/Library/Application Support/FreeSO Launcher'',
      win32 = False,
      temp_MacExtras = (\<lambda>i. ''temp/macextras-'' @ show_int i @ ''.zip''),
      temp_TSO_path = ''temp'',
      temp_TSO_file = ''tso.zip'',
      temp_TSO_extractionFolder = ''tso'',
      temp_TSO_firstCab = ''TSO_Installer_v1.1239.1.0/Data1.cab'',
      temp_TSO_rootCab = ''Data1.cab'',
      updateLocation = ''http://beta.freeso.org''\<rparr>"

definition empty_world :: world where
  "empty_world = \<lparr>disk = \<lparr>existing = {}, locked = {}\<rparr>, ui = []\<rparr>"

definition example_answers :: answers where
  "example_answers =
     \<lparr>samples = [(Num 40, Num 10, Num 25)],
      download = DownloadOk,
      mkdir = None,
      unzip_files = [''Simitone.Windows.exe''],
      unzipped = [''game/Simitone.Windows.exe''],
      unzip_error = None,
      read_error = None,
      cabinet = (\<lambda>p. ([(''Data1.cab'', ''TSOClient/TSOClient.exe'')], None)),
      cabinet_missing = ''ENOENT'',
      registry = None,
      release = Inr (Some ''v1.0'')\<rparr>"

subsection \<open>The percentage of the spec\<close>


subsection \<open>What the steps add to the interface calls\<close>

text \<open>
  Predicates of the proofs. \<open>is_progress\<close>: an interface call a step makes before the run
  ends (a progress item that is no failure notification, the progress bar, \<open>unzipgc\<close>).
  \<open>adds_progress f\<close>: \<open>f\<close> leaves the disk as it is and only appends such calls.
  \<open>quiet this w r\<close>: the outcome \<open>r\<close> of steps started from \<open>this\<close> and \<open>w\<close> has kept
  \<open>id\<close> and \<open>path\<close> and has only appended such calls.
\<close>

definition is_progress :: "constants \<Rightarrow> event \<Rightarrow> bool" where
  "is_progress C ev =
     (case ev of AddProgressItem k t s m pct \<Rightarrow> \<not> is_failure_message C m
               | SetProgressBar x \<Rightarrow> True | UnzipGc \<Rightarrow> True | _ \<Rightarrow> False)"

definition adds_progress :: "constants \<Rightarrow> (world \<Rightarrow> world) \<Rightarrow> bool" where
  "adds_progress C f =
     (\<forall>w. disk (f w) = disk w
          \<and> (\<exists>evs. ui (f w) = ui w @ evs \<and> list_all (is_progress C) evs))"

definition quiet :: "constants \<Rightarrow> installer \<Rightarrow> world \<Rightarrow> 'a outcome \<Rightarrow> bool" where
  "quiet C this w r =
     (id' (fst (snd r)) = id' this \<and> path (fst (snd r)) = path this
      \<and> (\<exists>evs. ui (snd (snd r)) = ui w @ evs \<and> list_all (is_progress C) evs))"

section \<open>Theorems\<close>

subsection \<open>Rounding to a double\<close>

lemma bit_length_bounds:
  "0 < n \<Longrightarrow> 2 ^ (bit_length n - 1) \<le> n \<and> n < 2 ^ bit_length n"
proof (induction n rule: bit_length.induct)
  case (1 n)
  show ?case
  proof (cases "n div 2 = 0")
    case True
    with 1 have "n = 1" by (simp add: div_eq_0_iff) 
    then show ?thesis by (simp add: bit_length.simps)
  next
    case False
    then have pos: "0 < n div 2" by simp
    from 1 have n0: "n \<noteq> 0" by simp
    from 1(1) [OF n0 pos] have ih: "2 ^ (bit_length (n div 2) - 1) \<le> n div 2"
      "n div 2 < 2 ^ bit_length (n div 2)" by simp_all
    from pos have bl: "0 < bit_length (n div 2)" by (subst bit_length.simps) simp
    have eq: "bit_length n = Suc (bit_length (n div 2))"
      using n0 by (subst bit_length.simps) simp
    from ih(1) have "2 * 2 ^ (bit_length (n div 2) - 1) \<le> n" by simp
    moreover from bl have "2 * 2 ^ (bit_length (n div 2) - 1) = (2::nat) ^ bit_length (n div 2)"
      by (cases "bit_length (n div 2)") simp_all
    moreover from ih(2) have "n < 2 * 2 ^ bit_length (n div 2)" by simp
    ultimately show ?thesis by (simp add: eq)
  qed
qed

lemma powi_pos: "0 < (2::rat) powi k"
  by simp

lemma powi_Suc: "(2::rat) powi (k + 1) = 2 * 2 powi k"
  by (simp add: power_int_add)

lemma powi_mono: "a \<le> b \<Longrightarrow> (2::rat) powi a \<le> 2 powi b"
  by (rule power_int_increasing) simp_all

lemma powi_strict_mono: "a < b \<Longrightarrow> (2::rat) powi a < 2 powi b"
  by (rule power_int_strict_increasing) simp_all

lemma binade_bounds:
  assumes "x \<noteq> 0"
  shows "2 powi binade x \<le> \<bar>x\<bar> \<and> \<bar>x\<bar> < 2 powi (binade x + 1)"
proof -
  obtain p q where pq: "quotient_of \<bar>x\<bar> = (p, q)" by (cases "quotient_of \<bar>x\<bar>")
  then have q: "0 < q" and x: "\<bar>x\<bar> = of_int p / of_int q"
    by (simp_all add: quotient_of_denom_pos quotient_of_div)
  from assms have "0 < \<bar>x\<bar>" by simp
  with x q have p: "0 < p" by (simp add: zero_less_divide_iff)
  define bp where "bp = bit_length (nat p)"
  define bq where "bq = bit_length (nat q)"
  from bit_length_bounds [of "nat p"] p
  have p1: "2 ^ (bp - 1) \<le> nat p" and p2: "nat p < 2 ^ bp" by (simp_all add: bp_def)
  from bit_length_bounds [of "nat q"] q
  have q1: "2 ^ (bq - 1) \<le> nat q" and q2: "nat q < 2 ^ bq" by (simp_all add: bq_def)
  from p p2 have bp0: "0 < bp" by (cases bp) simp_all
  from q q2 have bq0: "0 < bq" by (cases bq) simp_all
  have P1: "(2::rat) powi (int bp - 1) \<le> of_int p"
  proof -
    from p1 have "(of_nat (2 ^ (bp - 1)) :: rat) \<le> of_nat (nat p)" by (rule of_nat_mono)
    with p bp0 show ?thesis by (simp add: power_int_def nat_diff_distrib')
  qed
  have P2: "of_int p < (2::rat) powi (int bp)"
  proof -
    from p2 have "(of_nat (nat p) :: rat) < of_nat (2 ^ bp)" by (simp only: of_nat_less_iff)
    with p show ?thesis by (simp add: power_int_def)
  qed
  have Q1: "(2::rat) powi (int bq - 1) \<le> of_int q"
  proof -
    from q1 have "(of_nat (2 ^ (bq - 1)) :: rat) \<le> of_nat (nat q)" by (rule of_nat_mono)
    with q bq0 show ?thesis by (simp add: power_int_def nat_diff_distrib')
  qed
  have Q2: "of_int q < (2::rat) powi (int bq)"
  proof -
    from q2 have "(of_nat (nat q) :: rat) < of_nat (2 ^ bq)" by (simp only: of_nat_less_iff)
    with q show ?thesis by (simp add: power_int_def)
  qed
  define d where "d = int bp - int bq"
  have qpos: "(0::rat) < of_int q" using q by simp
  have e1: "(2::rat) powi (d - 1) * 2 powi (int bq) = 2 powi (int bp - 1)"
  proof -
    have "(2::rat) powi (d - 1 + int bq) = 2 powi (d - 1) * 2 powi (int bq)"
      by (subst power_int_add) simp_all
    moreover have "d - 1 + int bq = int bp - 1" by (simp add: d_def)
    ultimately show ?thesis by simp
  qed
  have e2: "(2::rat) powi (d + 1) * 2 powi (int bq - 1) = 2 powi (int bp)"
  proof -
    have "(2::rat) powi (d + 1 + (int bq - 1)) = 2 powi (d + 1) * 2 powi (int bq - 1)"
      by (subst power_int_add) simp_all
    moreover have "d + 1 + (int bq - 1) = int bp" by (simp add: d_def)
    ultimately show ?thesis by simp
  qed
  have upper: "\<bar>x\<bar> < 2 powi (d + 1)"
  proof -
    have "(2::rat) powi (d + 1) * 2 powi (int bq - 1) \<le> 2 powi (d + 1) * of_int q"
      using Q1 by (intro mult_left_mono) simp_all
    then have "(2::rat) powi (int bp) \<le> 2 powi (d + 1) * of_int q" by (simp only: e2)
    with P2 have "(of_int p :: rat) < 2 powi (d + 1) * of_int q" by (rule less_le_trans)
    then show ?thesis using qpos by (simp add: x pos_divide_less_eq)
  qed
  have lower: "2 powi (d - 1) < \<bar>x\<bar>"
  proof -
    have "2 powi (d - 1) * of_int q < (2::rat) powi (d - 1) * 2 powi (int bq)"
      using Q2 by (intro mult_strict_left_mono) simp_all
    then have "2 powi (d - 1) * of_int q < (2::rat) powi (int bp - 1)" by (simp only: e1)
    then have "(2::rat) powi (d - 1) * of_int q < of_int p" using P1 by (rule less_le_trans)
    then show ?thesis using qpos by (simp add: x pos_less_divide_eq)
  qed
  have b: "binade x = (if 2 powi d \<le> \<bar>x\<bar> then d else d - 1)"
    by (simp add: binade_def pq Let_def d_def bp_def bq_def)
  show ?thesis
  proof (cases "2 powi d \<le> \<bar>x\<bar>")
    case True
    with b upper show ?thesis by simp
  next
    case False
    with b lower show ?thesis by simp
  qed
qed

lemma binade_unique:
  assumes "x \<noteq> 0" "2 powi e \<le> \<bar>x\<bar>" "\<bar>x\<bar> < 2 powi (e + 1)"
  shows "binade x = e"
proof (rule ccontr)
  assume ne: "binade x \<noteq> e"
  from binade_bounds [OF assms(1)]
  have b: "2 powi binade x \<le> \<bar>x\<bar>" "\<bar>x\<bar> < 2 powi (binade x + 1)" by simp_all
  show False
  proof (cases "binade x < e")
    case True
    then have "binade x + 1 \<le> e" by simp
    then have "(2::rat) powi (binade x + 1) \<le> 2 powi e" by (rule powi_mono)
    with b(2) assms(2) show False by simp
  next
    case False
    with ne have "e + 1 \<le> binade x" by simp
    then have "(2::rat) powi (e + 1) \<le> 2 powi binade x" by (rule powi_mono)
    with b(1) assms(3) show False by simp
  qed
qed




lemma round_half_even_nearest:
  assumes "of_int n - 1 / 2 < q" "q < of_int n + 1 / 2"
  shows "round_half_even q = n"
proof (cases "of_int n \<le> q")
  case True
  with assms(2) have "\<lfloor>q\<rfloor> = n" by (intro floor_unique) simp_all
  with assms(2) show ?thesis by (simp add: round_half_even_def Let_def)
next
  case False
  with assms(1) have "\<lfloor>q\<rfloor> = n - 1" by (intro floor_unique) simp_all
  with assms(1) show ?thesis by (simp add: round_half_even_def Let_def)
qed


lemma fl_pos_eq:
  assumes "x \<noteq> 0"
  shows "fl x = of_int (round_half_even (x / 2 powi (max (binade x) (- 1022) - 52)))
                * 2 powi (max (binade x) (- 1022) - 52)"
  using assms by (simp add: fl_def Let_def)





lemma fl_nearest:
  assumes "2 powi e \<le> \<bar>x\<bar>" "\<bar>x\<bar> < 2 powi (e + 1)" "- 1022 \<le> e"
    and "of_int n - 1 / 2 < x / 2 powi (e - 52)" "x / 2 powi (e - 52) < of_int n + 1 / 2"
  shows "fl x = of_int n * 2 powi (e - 52)"
proof -
  from powi_pos [of e] assms(1) have "0 < \<bar>x\<bar>" by linarith
  then have x0: "x \<noteq> 0" by simp
  from binade_unique [OF x0 assms(1,2)] have "binade x = e" .
  with assms(3) have "max (binade x) (- 1022) = e" by simp
  with round_half_even_nearest [OF assms(4,5)] show ?thesis
    by (simp add: fl_pos_eq [OF x0])
qed


subsection \<open>Removing the download twice\<close>

lemma cleanup_absent: "tp \<notin> existing fs \<Longrightarrow> cleanup tp fs = fs"
  by (simp add: cleanup_def fs_stat_def)

lemma cleanup_present:
  "tp \<in> existing fs \<Longrightarrow>
   cleanup tp fs =
     (if tp \<in> locked fs then fs else fs\<lparr>existing := existing fs - {tp}\<rparr>)"
  by (simp add: cleanup_def fs_stat_def fs_unlink_def)

lemma cleanup_twice: "cleanup tp (cleanup tp fs) = cleanup tp fs"
proof (cases "tp \<in> existing fs")
  case False
  then show ?thesis by (simp add: cleanup_absent)
next
  case True
  show ?thesis
  proof (cases "tp \<in> locked fs")
    case True
    with \<open>tp \<in> existing fs\<close> show ?thesis by (simp add: cleanup_present)
  next
    case False
    with True have "cleanup tp fs = fs\<lparr>existing := existing fs - {tp}\<rparr>"
      by (simp add: cleanup_present)
    then show ?thesis by (simp add: cleanup_absent)
  qed
qed

text \<open>
  The stretch of the TSO failure path in which the download is removed twice:
  \<open>extractCabs\<close> removes it in the extractor's final callback, and \<open>error\<close> removes it
  again when the extraction has failed.
\<close>

lemma tso_extractCabs_disk:
  "disk (snd (snd (tso_extractCabs C A this w))) = dl_cleanup (tempPath this) (disk w)"
proof -
  have fold_disk: "disk (fold (tso_updateExtractionProgress C this) cabs v) = disk v" for cabs v
    by (induction cabs arbitrary: v)
       (simp_all add: tso_updateExtractionProgress_def tso_createProgressItem_def emit_def)
  show ?thesis
    by (simp add: tso_extractCabs_def Let_def on_disk_def emit_def fold_disk
             split: prod.splits option.splits)
qed

lemma tso_extractCabs_this: "fst (snd (tso_extractCabs C A this w)) = this"
  by (simp add: tso_extractCabs_def Let_def split: prod.splits option.splits)

lemma tso_error_disk:
  "disk (snd (tso_error C e this w)) = dl_cleanup (tempPath this) (disk w)"
  by (simp add: tso_error_def Let_def on_disk_def emit_def tso_createProgressItem_def)

text \<open>
  Claim C9. Removing the download is idempotent: the filesystem after two calls of
  \<open>cleanup\<close> in a row is the filesystem after one; when the file does not exist the call
  changes nothing (\<open>stat\<close> reports the error and \<open>unlink\<close> is not called); and on the TSO
  failure path, where \<open>error\<close> removes the download that \<open>extractCabs\<close> has removed
  already, the filesystem after \<open>error\<close> is the one \<open>extractCabs\<close> left.
\<close>

theorem cleanup_idempotent:
  "cleanup tp (cleanup tp fs) = cleanup tp fs
   \<and> dl_cleanup tp (dl_cleanup tp fs) = dl_cleanup tp fs
   \<and> (tp \<notin> existing fs \<longrightarrow> cleanup tp fs = fs \<and> fs_unlink fs tp = (Some ENOENT, fs))
   \<and> disk (snd (tso_error C e (fst (snd (tso_extractCabs C A this w)))
                          (snd (snd (tso_extractCabs C A this w)))))
       = disk (snd (snd (tso_extractCabs C A this w)))"
proof (intro conjI impI)
  show "cleanup tp (cleanup tp fs) = cleanup tp fs"
    by (rule cleanup_twice)
  show "dl_cleanup tp (dl_cleanup tp fs) = dl_cleanup tp fs"
    by (simp add: dl_cleanup_def cleanup_twice)
  show "disk (snd (tso_error C e (fst (snd (tso_extractCabs C A this w)))
                          (snd (snd (tso_extractCabs C A this w)))))
       = disk (snd (snd (tso_extractCabs C A this w)))"
    by (simp add: tso_error_disk tso_extractCabs_disk tso_extractCabs_this dl_cleanup_def
          cleanup_twice)
next
  assume "tp \<notin> existing fs"
  then show "cleanup tp fs = fs" by (rule cleanup_absent)
next
  assume "tp \<notin> existing fs"
  then show "fs_unlink fs tp = (Some ENOENT, fs)" by (simp add: fs_unlink_def)
qed

theorem cleanup_idempotent_witness:
  "''temp/installer.exe'' \<notin> existing (disk empty_world)
   \<and> cleanup ''temp/installer.exe'' (disk empty_world) = disk empty_world
   \<and> cleanup ''temp/installer.exe''
        (cleanup ''temp/installer.exe'' \<lparr>existing = {''temp/installer.exe''}, locked = {}\<rparr>)
      = \<lparr>existing = {}, locked = {}\<rparr>"
proof -
  have absent: "''temp/installer.exe'' \<notin> existing (disk empty_world)"
    by (simp add: empty_world_def)
  have once: "cleanup ''temp/installer.exe'' \<lparr>existing = {''temp/installer.exe''}, locked = {}\<rparr>
              = \<lparr>existing = {}, locked = {}\<rparr>"
    by (simp add: cleanup_present)
  from cleanup_idempotent [where tp = "''temp/installer.exe''" and fs = "disk empty_world"] absent
  have noop: "cleanup ''temp/installer.exe'' (disk empty_world) = disk empty_world"
    by blast
  from cleanup_idempotent
         [where tp = "''temp/installer.exe''"
            and fs = "\<lparr>existing = {''temp/installer.exe''}, locked = {}\<rparr>"]
  have "cleanup ''temp/installer.exe''
          (cleanup ''temp/installer.exe'' \<lparr>existing = {''temp/installer.exe''}, locked = {}\<rparr>)
        = cleanup ''temp/installer.exe'' \<lparr>existing = {''temp/installer.exe''}, locked = {}\<rparr>"
    by blast
  with once absent noop show ?thesis by simp
qed


subsection \<open>The probe for an installed component\<close>

text \<open>
  Claim C10. For every destination path \<open>p\<close> and every filesystem, \<open>isInstalledInPath\<close>
  resolves, and neither rejects nor stays pending. For TSO the probe executable is
  \<open>p + '/TSOClient/TSOClient.exe'\<close>, for Simitone \<open>p + '\Simitone.Windows.exe'\<close> (one
  backslash): the promise resolves with true exactly when a file exists at this path,
  and with false exactly when \<open>stat\<close> of this path reports an error, which is when no
  file exists there.
\<close>

theorem isInstalledInPath_resolves:
  "(\<exists>b. tso_isInstalledInPath p fs = Resolved b)
   \<and> (\<forall>e. tso_isInstalledInPath p fs \<noteq> Rejected e)
   \<and> tso_isInstalledInPath p fs \<noteq> Pending
   \<and> (tso_isInstalledInPath p fs = Resolved True)
       = (p @ ''/TSOClient/TSOClient.exe'' \<in> existing fs)
   \<and> (tso_isInstalledInPath p fs = Resolved False)
       = (fs_stat fs (p @ ''/TSOClient/TSOClient.exe'') \<noteq> None)
   \<and> (tso_isInstalledInPath p fs = Resolved False)
       = (p @ ''/TSOClient/TSOClient.exe'' \<notin> existing fs)
   \<and> (\<exists>b. simitone_isInstalledInPath p fs = Resolved b)
   \<and> (\<forall>e. simitone_isInstalledInPath p fs \<noteq> Rejected e)
   \<and> simitone_isInstalledInPath p fs \<noteq> Pending
   \<and> (simitone_isInstalledInPath p fs = Resolved True)
       = (p @ [CHR 0x5C] @ ''Simitone.Windows.exe'' \<in> existing fs)
   \<and> (simitone_isInstalledInPath p fs = Resolved False)
       = (fs_stat fs (p @ [CHR 0x5C] @ ''Simitone.Windows.exe'') \<noteq> None)
   \<and> (simitone_isInstalledInPath p fs = Resolved False)
       = (p @ [CHR 0x5C] @ ''Simitone.Windows.exe'' \<notin> existing fs)
   \<and> tso_isInstalledInPath ''C:/Games/TSO''
        \<lparr>existing = {''C:/Games/TSO/TSOClient/TSOClient.exe''}, locked = {}\<rparr> = Resolved True
   \<and> tso_isInstalledInPath ''C:/Games/TSO''
        \<lparr>existing = {''C:/Games/TSO/TSOClient.exe''}, locked = {}\<rparr> = Resolved False
   \<and> simitone_isInstalledInPath ''C:/Games/Simitone''
        \<lparr>existing = {''C:/Games/Simitone'' @ [CHR 0x5C] @ ''Simitone.Windows.exe''},
         locked = {}\<rparr> = Resolved True
   \<and> simitone_isInstalledInPath ''C:/Games/Simitone''
        \<lparr>existing = {''C:/Games/Simitone/Simitone.Windows.exe''}, locked = {}\<rparr>
       = Resolved False"
  by (simp add: tso_isInstalledInPath_def simitone_isInstalledInPath_def fs_stat_def
        tso_probe_def simitone_probe_def)


subsection \<open>Declining the game path dialog\<close>

text \<open>
  Claim C8. When the user declines the dialog (\<open>yes\<close> is false), no install is started,
  the component of the dialog's options is removed from the active tasks, and a request
  to install that component is then admitted, not refused as already installing.
\<close>

theorem decline_clears_marker:
  "\<exists>L'. onChangeGamePath cgp L False (Some opts) = Inr L'
        \<and> L' = removeActiveTask (component opts) L
        \<and> component opts \<notin> set (activeTasks L')
        \<and> admit (component opts) L' \<noteq> Inl AlreadyInstallingError
        \<and> (\<exists>L''. admit (component opts) L' = Inr L'' \<and> component opts \<in> set (activeTasks L''))"
  by (simp add: onChangeGamePath_def removeActiveTask_def admit_def)


subsection \<open>Run identifiers\<close>

lemma digit_char_one: "digit_char (Suc 0) = CHR ''1''"
proof -
  have "digit_char (Suc 0) = char_of (49::nat)" by (simp add: digit_char_def)
  also have "\<dots> = CHR ''1''" by (simp add: char_of_def bit_Suc_0_iff)
  finally show ?thesis .
qed

lemma digit_char_values:
  "digit_char 0 = CHR ''0''" "digit_char 2 = CHR ''2''"
  "digit_char 3 = CHR ''3''" "digit_char 4 = CHR ''4''" "digit_char 5 = CHR ''5''"
  "digit_char 6 = CHR ''6''" "digit_char 7 = CHR ''7''" "digit_char 8 = CHR ''8''"
  "digit_char 9 = CHR ''9''"
  by (simp_all add: digit_char_def char_of_def bit_Suc_0_iff)

lemma of_char_digit_char: "d < 10 \<Longrightarrow> (of_char (digit_char d) :: nat) = 48 + d"
  by (simp add: digit_char_def)

text \<open>Reading the digits back gives the number, so the decimal text is injective.\<close>

lemma read_show_nat:
  "foldl (\<lambda>acc c. 10 * acc + (of_char c - 48)) (0::nat) (show_nat n) = n"
proof (induction n rule: show_nat.induct)
  case (1 n)
  show ?case
  proof (cases "n < 10")
    case True
    then show ?thesis
      by (subst show_nat.simps) (simp add: of_char_digit_char)
  next
    case False
    have "n mod 10 < 10" by simp
    with False 1 show ?thesis
      by (subst show_nat.simps) (simp add: of_char_digit_char)
  qed
qed

lemma show_nat_inj: "show_nat n = show_nat m \<Longrightarrow> n = m"
  by (metis read_show_nat)

lemma digit_char_not_minus: "d < 10 \<Longrightarrow> digit_char d \<noteq> CHR ''-''"
proof
  assume d: "d < 10" and eq: "digit_char d = CHR ''-''"
  have "(of_char (digit_char d) :: nat) = 48 + d" using d by (rule of_char_digit_char)
  with eq show False by simp
qed

lemma minus_notin_show_nat: "CHR ''-'' \<notin> set (show_nat n)"
proof (induction n rule: show_nat.induct)
  case (1 n)
  show ?case
  proof (cases "n < 10")
    case True
    then show ?thesis
      by (subst show_nat.simps) (simp add: digit_char_not_minus [symmetric])
  next
    case False
    have "n mod 10 < 10" by simp
    with False 1 show ?thesis
      by (subst show_nat.simps) (simp add: digit_char_not_minus [symmetric])
  qed
qed

lemma show_int_inj: "show_int a = show_int b \<longleftrightarrow> a = b"
proof
  assume eq: "show_int a = show_int b"
  show "a = b"
  proof (cases "a < 0")
    case True
    show ?thesis
    proof (cases "b < 0")
      case True
      with \<open>a < 0\<close> eq have "show_nat (nat (- a)) = show_nat (nat (- b))"
        by (simp add: show_int_def)
      then have "nat (- a) = nat (- b)" by (rule show_nat_inj)
      with True \<open>a < 0\<close> show ?thesis by simp
    next
      case False
      with \<open>a < 0\<close> eq have "CHR ''-'' # show_nat (nat (- a)) = show_nat (nat b)"
        by (simp add: show_int_def)
      then have "CHR ''-'' \<in> set (show_nat (nat b))" by (metis list.set_intros(1))
      then show ?thesis by (simp add: minus_notin_show_nat)
    qed
  next
    case False
    show ?thesis
    proof (cases "b < 0")
      case True
      with False eq have "show_nat (nat a) = CHR ''-'' # show_nat (nat (- b))"
        by (simp add: show_int_def)
      then have "CHR ''-'' \<in> set (show_nat (nat a))" by (metis list.set_intros(1))
      then show ?thesis by (simp add: minus_notin_show_nat)
    next
      case b: False
      with False eq have "show_nat (nat a) = show_nat (nat b)"
        by (simp add: show_int_def)
      then have "nat a = nat b" by (rule show_nat_inj)
      with False b show ?thesis by simp
    qed
  qed
qed simp

lemma show_int_example: "show_int 1700000000 = ''1700000000''"
  by (simp add: show_int_def show_nat.simps digit_char_values digit_char_one)

text \<open>
  Claim C6, as stated: any two distinct runs have distinct identifiers. It fails for two
  runs constructed within one second: the identifier is the time in whole seconds. Two
  Simitone installers made 800 milliseconds apart for different folders have the same
  \<open>id\<close>, the same progress key and the same download path.
\<close>

theorem run_ids_collide:
  "SimitoneInstaller 1700000000100 ''C:/Games/Simitone'' \<noteq> SimitoneInstaller 1700000000900 ''D:/Simitone''
   \<and> id' (SimitoneInstaller 1700000000100 ''C:/Games/Simitone'')
       = id' (SimitoneInstaller 1700000000900 ''D:/Simitone'')
   \<and> simitone_key (SimitoneInstaller 1700000000100 ''C:/Games/Simitone'') = ''FSOProgressItem1700000000''
   \<and> simitone_key (SimitoneInstaller 1700000000900 ''D:/Simitone'') = ''FSOProgressItem1700000000''
   \<and> tempPath (SimitoneInstaller 1700000000100 ''C:/Games/Simitone'')
       = tempPath (SimitoneInstaller 1700000000900 ''D:/Simitone'')"
  by (simp add: SimitoneInstaller_def simitone_key_def run_id_def show_int_example)

text \<open>
  Claim C6, amended. Two runs have the same identifier exactly when they are constructed
  within the same second (\<open>id = floor(Date.now() / 1000)\<close>). Runs of one class, and a
  MacExtras and a Simitone run (both keys begin \<open>FSOProgressItem\<close>), have the same
  progress key exactly when their identifiers are equal; the keys of a TSO run and of an
  update run differ from the keys of every run of another class.
\<close>

theorem run_ids_by_the_second:
  "(id' (SimitoneInstaller n1 p1) = id' (SimitoneInstaller n2 p2)) = (n1 div 1000 = n2 div 1000)
   \<and> (simitone_key (SimitoneInstaller n1 p1) = simitone_key (SimitoneInstaller n2 p2))
      = (n1 div 1000 = n2 div 1000)
   \<and> (mac_key (MacExtrasInstaller C n1 p1 c1) = mac_key (MacExtrasInstaller C n2 p2 c2))
      = (n1 div 1000 = n2 div 1000)
   \<and> (tso_key (TSOInstaller C n1 p1) = tso_key (TSOInstaller C n2 p2))
      = (n1 div 1000 = n2 div 1000)
   \<and> (update_key (UpdateInstaller n1) = update_key (UpdateInstaller n2))
      = (n1 div 1000 = n2 div 1000)
   \<and> (mac_key (MacExtrasInstaller C n1 p1 c1) = simitone_key (SimitoneInstaller n2 p2))
      = (n1 div 1000 = n2 div 1000)
   \<and> tso_key a \<noteq> mac_key b \<and> tso_key a \<noteq> simitone_key b \<and> tso_key a \<noteq> update_key b
   \<and> update_key a \<noteq> mac_key b \<and> update_key a \<noteq> simitone_key b"
  by (simp add: simitone_key_def mac_key_def tso_key_def update_key_def SimitoneInstaller_def
      MacExtrasInstaller_def TSOInstaller_def UpdateInstaller_def run_id_def show_int_inj)


subsection \<open>Steps only add progress\<close>

lemma quiet_and_then:
  assumes r: "quiet C this w r"
    and f: "\<And>v this' w'. quiet C this' w' (f v this' w')"
  shows "quiet C this w (and_then r f)"
proof (cases r)
  case (fields p this1 w1)
  from r fields obtain evs where
    1: "id' this1 = id' this" "path this1 = path this" "ui w1 = ui w @ evs" "list_all (is_progress C) evs"
    by (auto simp: quiet_def)
  show ?thesis
  proof (cases p)
    case (Rejected e)
    with fields r show ?thesis by (simp add: and_then_def quiet_def)
  next
    case Pending
    with fields r show ?thesis by (simp add: and_then_def quiet_def)
  next
    case (Resolved v)
    from f [of this1 w1 v] obtain evs' where
      2: "id' (fst (snd (f v this1 w1))) = id' this1" "path (fst (snd (f v this1 w1))) = path this1"
         "ui (snd (snd (f v this1 w1))) = ui w1 @ evs'" "list_all (is_progress C) evs'"
      by (auto simp: quiet_def)
    from 1 2 have "ui (snd (snd (f v this1 w1))) = ui w @ (evs @ evs')"
      "list_all (is_progress C) (evs @ evs')" by simp_all
    with 1 2 have "quiet C this w (f v this1 w1)"
      unfolding quiet_def by metis
    with fields Resolved show ?thesis by (simp add: and_then_def)
  qed
qed

lemma progress_item:
  "\<not> is_failure_message C m \<Longrightarrow> is_progress C (AddProgressItem k t s m pct)"
  "is_progress C (SetProgressBar x)" "is_progress C UnzipGc"
  by (simp_all add: is_progress_def)

lemma not_failure_message [simp]:
  "\<not> is_failure_message C (Downloading a b c)" "\<not> is_failure_message C (DownloadingInstaller a b c)"
  "\<not> is_failure_message C (ExtractingFile f)" "\<not> is_failure_message C (ExtractingCab f g)"
  "\<not> is_failure_message C EXTRACTING_CLIENT_FILES"
  "\<not> is_failure_message C INSTALLATION_FINISHED"
  "\<not> is_failure_message C (Text ''Extracting client files, please wait...'')"
  "\<not> is_failure_message C (Text ''Download finished. Setup will start...'')"
  by (simp_all add: is_failure_message_def update_failed_text_def)

lemma adds_progress_create:
  assumes "\<not> is_failure_message C m"
  shows "adds_progress C (mac_createProgressItem C this m pct)"
    "adds_progress C (tso_createProgressItem C this m pct)"
    "adds_progress C (simitone_createProgressItem this m pct)"
    "adds_progress C (update_createProgressItem C this m pct)"
  using assms
  by (simp_all add: adds_progress_def mac_createProgressItem_def tso_createProgressItem_def
        simitone_createProgressItem_def update_createProgressItem_def emit_def progress_item)

lemma adds_progress_comp:
  assumes "adds_progress C f" "adds_progress C g"
  shows "adds_progress C (\<lambda>w. g (f w))"
proof -
  { fix w
    from assms(1) obtain e1 where 1: "disk (f w) = disk w" "ui (f w) = ui w @ e1" "list_all (is_progress C) e1"
      by (auto simp: adds_progress_def)
    from assms(2) obtain e2 where 2: "disk (g (f w)) = disk (f w)" "ui (g (f w)) = ui (f w) @ e2" "list_all (is_progress C) e2"
      unfolding adds_progress_def by blast
    from 1 2 have "disk (g (f w)) = disk w \<and> ui (g (f w)) = ui w @ (e1 @ e2) \<and> list_all (is_progress C) (e1 @ e2)"
      by simp
    then have "disk (g (f w)) = disk w \<and> (\<exists>evs. ui (g (f w)) = ui w @ evs \<and> list_all (is_progress C) evs)"
      by blast }
  then show ?thesis by (simp add: adds_progress_def)
qed

lemma adds_progress_fold:
  assumes "\<And>x. adds_progress C (f x)"
  shows "adds_progress C (fold f xs)"
proof (induction xs)
  case Nil
  show ?case by (simp add: adds_progress_def)
next
  case (Cons x xs)
  have "fold f (x # xs) = (\<lambda>w. fold f xs (f x w))" by (simp add: fun_eq_iff)
  with adds_progress_comp [OF assms [of x] Cons.IH] show ?case by simp
qed

lemma adds_progress_poll:
  assumes "\<And>s. adds_progress C (\<lambda>w. fst (tick s w))"
  shows "adds_progress C (\<lambda>w. fst (poll tick ss w))"
proof (induction ss)
  case Nil
  show ?case by (simp add: adds_progress_def)
next
  case (Cons s ss)
  have eq: "(\<lambda>w. fst (poll tick (s # ss) w)) =
        (\<lambda>w. if snd (tick s w) then fst (poll tick ss (fst (tick s w))) else fst (tick s w))"
    by (simp add: fun_eq_iff split: prod.splits)
  from adds_progress_comp [OF assms [of s] Cons.IH] assms [of s]
  show ?case unfolding eq by (simp add: adds_progress_def)
qed

lemma adds_progress_ticks:
  "adds_progress C (\<lambda>w. fst (mac_tick C this s w))"
  "adds_progress C (\<lambda>w. fst (simitone_tick this s w))"
  "adds_progress C (\<lambda>w. fst (update_tick C this s w))"
  "adds_progress C (\<lambda>w. fst (tso_tick C this s w))"
  using adds_progress_create [where m = "Downloading a b c" for a b c]
        adds_progress_create [where m = "DownloadingInstaller a b c" for a b c]
  by (auto simp: mac_tick_def simitone_tick_def update_tick_def tso_tick_def Let_def
        adds_progress_def split: prod.splits)


lemma adds_progressD:
  assumes "adds_progress C f"
  obtains evs where "ui (f w) = ui w @ evs" "list_all (is_progress C) evs"
  using assms unfolding adds_progress_def by blast

lemma quiet_setupDir: "quiet C this w (setupDir A this w)"
  by (simp add: setupDir_def quiet_def split: option.splits)

lemma quiet_registry_step: "quiet C this w (registry_step A this w)"
  by (simp add: registry_step_def quiet_def split: option.splits)

lemma quiet_mac_download: "quiet C this w (mac_download C A this w)"
proof -
  have "adds_progress C (\<lambda>w. fst (poll (mac_tick C this) (samples A) w))"
    by (rule adds_progress_poll) (rule adds_progress_ticks)
  then obtain evs where "ui (fst (poll (mac_tick C this) (samples A) w)) = ui w @ evs"
      "list_all (is_progress C) evs"
    by (rule adds_progressD)
  then show ?thesis
    by (simp add: mac_download_def Let_def quiet_def on_disk_def)
qed

lemma quiet_update_download: "quiet C this w (update_download C A this w)"
proof -
  have "adds_progress C (\<lambda>w. fst (poll (update_tick C this) (samples A) w))"
    by (rule adds_progress_poll) (rule adds_progress_ticks)
  then obtain evs where "ui (fst (poll (update_tick C this) (samples A) w)) = ui w @ evs"
      "list_all (is_progress C) evs"
    by (rule adds_progressD)
  then show ?thesis
    by (simp add: update_download_def Let_def quiet_def on_disk_def)
qed

lemma quiet_simitone_download: "quiet C this w (simitone_download A this w)"
proof -
  have "adds_progress C (\<lambda>w. fst (poll (simitone_tick this) (samples A) w))"
    by (rule adds_progress_poll) (rule adds_progress_ticks)
  then obtain evs where "ui (fst (poll (simitone_tick this) (samples A) w)) = ui w @ evs"
      "list_all (is_progress C) evs"
    by (rule adds_progressD)
  then show ?thesis
    by (simp add: simitone_download_def Let_def quiet_def on_disk_def)
qed

lemma quiet_tso_download: "quiet C this w (tso_download C A this w)"
proof -
  have "adds_progress C (\<lambda>w. fst (poll (tso_tick C this) (samples A) w))"
    by (rule adds_progress_poll) (rule adds_progress_ticks)
  then obtain evs where "ui (fst (poll (tso_tick C this) (samples A) w)) = ui w @ evs"
      "list_all (is_progress C) evs"
    by (rule adds_progressD)
  then show ?thesis
    by (simp add: tso_download_def Let_def quiet_def on_disk_def)
qed

lemma quiet_simitone_step1: "quiet C this w (simitone_step1 A this w)"
  by (simp add: simitone_step1_def quiet_def split: sum.splits option.splits)

lemma quiet_mac_extract: "quiet C this w (mac_extract C A this w)"
proof -
  have "adds_progress C
          (fold (\<lambda>filename. mac_createProgressItem C this (ExtractingFile filename) (Num 100))
             (unzip_files A))"
    by (rule adds_progress_fold) (simp add: adds_progress_create)
  then obtain evs where
    "ui (fold (\<lambda>filename. mac_createProgressItem C this (ExtractingFile filename) (Num 100))
             (unzip_files A) w) = ui w @ evs" "list_all (is_progress C) evs"
    by (rule adds_progressD)
  then show ?thesis
    by (simp add: mac_extract_def Let_def quiet_def on_disk_def split: option.splits)
qed

lemma quiet_simitone_extract: "quiet C this w (simitone_extract A this w)"
proof -
  have 0: "adds_progress C (simitone_createProgressItem this EXTRACTING_CLIENT_FILES (Num 100))"
    by (simp add: adds_progress_create)
  then obtain evs0 where
    e0: "ui (simitone_createProgressItem this EXTRACTING_CLIENT_FILES (Num 100) w) = ui w @ evs0"
    "list_all (is_progress C) evs0"
    by (rule adds_progressD)
  have "adds_progress C
          (\<lambda>w. fold (\<lambda>entry. simitone_createProgressItem this (ExtractingFile entry) (Num 100))
             (unzip_files A)
             (simitone_createProgressItem this EXTRACTING_CLIENT_FILES (Num 100) w))"
    by (rule adds_progress_comp [OF _ adds_progress_fold]) (simp_all add: adds_progress_create)
  then obtain evs where
    "ui (fold (\<lambda>entry. simitone_createProgressItem this (ExtractingFile entry) (Num 100))
             (unzip_files A)
             (simitone_createProgressItem this EXTRACTING_CLIENT_FILES (Num 100) w)) = ui w @ evs"
    "list_all (is_progress C) evs"
    by (rule adds_progressD)
  with e0 show ?thesis
    by (simp add: simitone_extract_def Let_def quiet_def on_disk_def split: option.splits)
qed

lemma quiet_tso_extractZip: "quiet C this w (tso_extractZip C A this w)"
proof -
  have "adds_progress C
          (\<lambda>w. fold (\<lambda>filename. tso_createProgressItem C this (ExtractingFile filename) (Num 100))
             (unzip_files A)
             (tso_createProgressItem C this (Text ''Extracting client files, please wait...'')
                (Num 100) w))"
    by (rule adds_progress_comp [OF _ adds_progress_fold]) (simp_all add: adds_progress_create)
  then obtain evs where
    "ui (fold (\<lambda>filename. tso_createProgressItem C this (ExtractingFile filename) (Num 100))
             (unzip_files A)
             (tso_createProgressItem C this (Text ''Extracting client files, please wait...'')
                (Num 100) w)) = ui w @ evs"
    "list_all (is_progress C) evs"
    by (rule adds_progressD)
  then show ?thesis
    by (simp add: tso_extractZip_def Let_def quiet_def on_disk_def split: option.splits)
qed

lemma quiet_tso_extractCabs: "quiet C this w (tso_extractCabs C A this w)"
proof -
  obtain cabs err where ce: "cabinet_extract A (disk w) (tso_cab_from C (disk w)) = (cabs, err)"
    by (cases "cabinet_extract A (disk w) (tso_cab_from C (disk w))")
  have "\<And>cab. adds_progress C (tso_updateExtractionProgress C this cab)"
    using adds_progress_create(2) [where m = "ExtractingCab a b" for a b]
    by (simp add: tso_updateExtractionProgress_def [abs_def])
  then have "adds_progress C (fold (tso_updateExtractionProgress C this) cabs)"
    by (rule adds_progress_fold)
  then obtain evs where 1: "ui (fold (tso_updateExtractionProgress C this) cabs w) = ui w @ evs"
    "list_all (is_progress C) evs"
    by (rule adds_progressD)
  then have "ui (emit [UnzipGc] (fold (tso_updateExtractionProgress C this) cabs w))
               = ui w @ (evs @ [UnzipGc])" "list_all (is_progress C) (evs @ [UnzipGc])"
    by (simp_all add: emit_def progress_item)
  then show ?thesis
    unfolding quiet_def
    by (simp add: tso_extractCabs_def Let_def ce on_disk_def split: option.splits)
qed

lemma quiet_mac_steps: "quiet C this w (mac_steps C A this w)"
  unfolding mac_steps_def
  by (intro quiet_and_then quiet_mac_download quiet_setupDir quiet_mac_extract)

lemma quiet_simitone_steps: "quiet C this w (simitone_steps A this w)"
  unfolding simitone_steps_def
  by (intro quiet_and_then quiet_simitone_step1 quiet_simitone_download quiet_setupDir
        quiet_simitone_extract quiet_registry_step)

lemma quiet_tso_steps: "quiet C this w (tso_steps C A this w)"
  unfolding tso_steps_def
  by (intro quiet_and_then quiet_tso_download quiet_setupDir quiet_tso_extractZip
        quiet_tso_extractCabs quiet_registry_step)



subsection \<open>The percentage\<close>














lemma example_tso_installer:
  "tso_key (TSOInstaller example_constants 1700000000123 ''/games/tso'') = ''TSOProgressItem1700000000''"
  "textPath example_constants (TSOInstaller example_constants 1700000000123 ''/games/tso'') = ''/games/tso''"
  "\<not> haltProgress (TSOInstaller example_constants 1700000000123 ''/games/tso'')"
  by (simp_all add: tso_key_def TSOInstaller_def run_id_def show_int_example textPath_def
        example_constants_def)











subsection \<open>The first cabinet under two names\<close>

lemma tso_cab_from_eq:
  "tso_cab_from C fs = (if tso_firstCab C \<in> existing fs then tso_firstCab C else tso_rootCab C)"
  by (simp add: tso_cab_from_def pathExists_def)

lemma tso_extractCabs_fst:
  "fst (tso_extractCabs C A this w) =
     (case snd (cabinet_extract A (disk w) (tso_cab_from C (disk w))) of
        None \<Rightarrow> Resolved () | Some e \<Rightarrow> Rejected (TSOExtractionFailed e))"
  by (simp add: tso_extractCabs_def Let_def split: prod.splits option.splits)

lemma tso_create_disk: "disk (tso_createProgressItem C this m pct w) = disk w"
  by (simp add: tso_createProgressItem_def emit_def)

lemma tso_extraction_ui:
  "ui (fold (tso_updateExtractionProgress C this) cabs w) =
     ui w @ concat (map (\<lambda>cab.
       [AddProgressItem (tso_key this) ''The Sims Online (FilePlanet)''
          (INS_IN (textPath C this)) (ExtractingCab (fst cab) (snd cab)) (Num 100),
        SetProgressBar (Num 2)]) cabs)"
  by (induction cabs arbitrary: w)
     (simp_all add: tso_updateExtractionProgress_def tso_createProgressItem_def emit_def
        progressBar_def js_eq_def)

lemma tso_extractCabs_ui:
  "ui (snd (snd (tso_extractCabs C A this w))) =
     ui w @ concat (map (\<lambda>cab.
       [AddProgressItem (tso_key this) ''The Sims Online (FilePlanet)''
          (INS_IN (textPath C this)) (ExtractingCab (fst cab) (snd cab)) (Num 100),
        SetProgressBar (Num 2)])
       (fst (cabinet_extract A (disk w) (tso_cab_from C (disk w))))) @ [UnzipGc]"
  by (simp add: tso_extractCabs_def Let_def tso_extraction_ui on_disk_def emit_def
        split: prod.splits option.splits)

text \<open>
  Claim C7. \<open>extractCabs\<close> looks for the first cabinet under the first name, the path
  \<open>temp.TSO.path/temp.TSO.extractionFolder/temp.TSO.firstCab\<close>; when a file exists
  there, the extractor runs on it, whether or not there is one under the second name.
  When no file exists there it takes the second name,
  \<open>temp.TSO.path/temp.TSO.extractionFolder/temp.TSO.rootCab\<close> (the cabinets in the root
  of the archive). So the extractor is given a path that does not exist only when the
  cabinet is under neither name, and then the step rejects with the extraction error.
  \<open>extractCabs\<close> rejects exactly when the extractor reports an error; when the
  extractor reports none for the cabinets that exist, the step fails exactly when the
  cabinet is under neither name.
\<close>

theorem extractCabs_two_conventions:
  "tso_cab_from C fs =
     (if temp_TSO_path C @ ''/'' @ temp_TSO_extractionFolder C @ ''/'' @ temp_TSO_firstCab C
           \<in> existing fs
      then temp_TSO_path C @ ''/'' @ temp_TSO_extractionFolder C @ ''/'' @ temp_TSO_firstCab C
      else temp_TSO_path C @ ''/'' @ temp_TSO_extractionFolder C @ ''/'' @ temp_TSO_rootCab C)
   \<and> (tso_cab_from C fs \<notin> existing fs) =
       (temp_TSO_path C @ ''/'' @ temp_TSO_extractionFolder C @ ''/'' @ temp_TSO_firstCab C
          \<notin> existing fs
        \<and> temp_TSO_path C @ ''/'' @ temp_TSO_extractionFolder C @ ''/'' @ temp_TSO_rootCab C
          \<notin> existing fs)
   \<and> fst (tso_extractCabs C A this w) =
       (case snd (cabinet_extract A (disk w) (tso_cab_from C (disk w))) of
          None \<Rightarrow> Resolved () | Some e \<Rightarrow> Rejected (TSOExtractionFailed e))
   \<and> (temp_TSO_path C @ ''/'' @ temp_TSO_extractionFolder C @ ''/'' @ temp_TSO_firstCab C
         \<in> existing (disk w) \<longrightarrow>
        fst (tso_extractCabs C A this w) =
          (case snd (cabinet A
              (temp_TSO_path C @ ''/'' @ temp_TSO_extractionFolder C @ ''/''
               @ temp_TSO_firstCab C)) of
             None \<Rightarrow> Resolved () | Some e \<Rightarrow> Rejected (TSOExtractionFailed e))
        \<and> ui (snd (snd (tso_extractCabs C A this w))) =
            ui w @ concat (map (\<lambda>cab.
              [AddProgressItem (tso_key this) ''The Sims Online (FilePlanet)''
                 (INS_IN (textPath C this)) (ExtractingCab (fst cab) (snd cab)) (Num 100),
               SetProgressBar (Num 2)])
              (fst (cabinet A
                 (temp_TSO_path C @ ''/'' @ temp_TSO_extractionFolder C @ ''/''
                  @ temp_TSO_firstCab C)))) @ [UnzipGc])
   \<and> (temp_TSO_path C @ ''/'' @ temp_TSO_extractionFolder C @ ''/'' @ temp_TSO_firstCab C
         \<notin> existing (disk w)
       \<and> temp_TSO_path C @ ''/'' @ temp_TSO_extractionFolder C @ ''/'' @ temp_TSO_rootCab C
         \<in> existing (disk w) \<longrightarrow>
        fst (tso_extractCabs C A this w) =
          (case snd (cabinet A
              (temp_TSO_path C @ ''/'' @ temp_TSO_extractionFolder C @ ''/''
               @ temp_TSO_rootCab C)) of
             None \<Rightarrow> Resolved () | Some e \<Rightarrow> Rejected (TSOExtractionFailed e))
        \<and> ui (snd (snd (tso_extractCabs C A this w))) =
            ui w @ concat (map (\<lambda>cab.
              [AddProgressItem (tso_key this) ''The Sims Online (FilePlanet)''
                 (INS_IN (textPath C this)) (ExtractingCab (fst cab) (snd cab)) (Num 100),
               SetProgressBar (Num 2)])
              (fst (cabinet A
                 (temp_TSO_path C @ ''/'' @ temp_TSO_extractionFolder C @ ''/''
                  @ temp_TSO_rootCab C)))) @ [UnzipGc])
   \<and> (temp_TSO_path C @ ''/'' @ temp_TSO_extractionFolder C @ ''/'' @ temp_TSO_firstCab C
         \<notin> existing (disk w)
       \<and> temp_TSO_path C @ ''/'' @ temp_TSO_extractionFolder C @ ''/'' @ temp_TSO_rootCab C
         \<notin> existing (disk w) \<longrightarrow>
        fst (tso_extractCabs C A this w) = Rejected (TSOExtractionFailed (cabinet_missing A)))
   \<and> ((\<forall>p. snd (cabinet A p) = None) \<longrightarrow>
        (\<exists>e. fst (tso_extractCabs C A this w) = Rejected e) =
        (temp_TSO_path C @ ''/'' @ temp_TSO_extractionFolder C @ ''/'' @ temp_TSO_firstCab C
           \<notin> existing (disk w)
         \<and> temp_TSO_path C @ ''/'' @ temp_TSO_extractionFolder C @ ''/'' @ temp_TSO_rootCab C
           \<notin> existing (disk w)))"
proof -
  define first where
    "first = temp_TSO_path C @ ''/'' @ temp_TSO_extractionFolder C @ ''/'' @ temp_TSO_firstCab C"
  define root where
    "root = temp_TSO_path C @ ''/'' @ temp_TSO_extractionFolder C @ ''/'' @ temp_TSO_rootCab C"
  have f: "tso_firstCab C = first" by (simp add: tso_firstCab_def first_def)
  have r: "tso_rootCab C = root" by (simp add: tso_rootCab_def root_def)
  have cf: "tso_cab_from C fs = (if first \<in> existing fs then first else root)" for fs
    by (simp add: tso_cab_from_eq f r)
  have 1: "(tso_cab_from C fs \<notin> existing fs) = (first \<notin> existing fs \<and> root \<notin> existing fs)"
    by (simp add: cf)
  have 2: "fst (tso_extractCabs C A this w) =
       (case snd (cabinet_extract A (disk w) (tso_cab_from C (disk w))) of
          None \<Rightarrow> Resolved () | Some e \<Rightarrow> Rejected (TSOExtractionFailed e))"
    by (rule tso_extractCabs_fst)
  have 3: "first \<in> existing (disk w) \<longrightarrow>
        fst (tso_extractCabs C A this w) =
          (case snd (cabinet A first) of
             None \<Rightarrow> Resolved () | Some e \<Rightarrow> Rejected (TSOExtractionFailed e))
        \<and> ui (snd (snd (tso_extractCabs C A this w))) =
            ui w @ concat (map (\<lambda>cab.
              [AddProgressItem (tso_key this) ''The Sims Online (FilePlanet)''
                 (INS_IN (textPath C this)) (ExtractingCab (fst cab) (snd cab)) (Num 100),
               SetProgressBar (Num 2)])
              (fst (cabinet A first))) @ [UnzipGc]"
    by (simp add: tso_extractCabs_fst tso_extractCabs_ui cf cabinet_extract_def)
  have 4: "first \<notin> existing (disk w) \<and> root \<in> existing (disk w) \<longrightarrow>
        fst (tso_extractCabs C A this w) =
          (case snd (cabinet A root) of
             None \<Rightarrow> Resolved () | Some e \<Rightarrow> Rejected (TSOExtractionFailed e))
        \<and> ui (snd (snd (tso_extractCabs C A this w))) =
            ui w @ concat (map (\<lambda>cab.
              [AddProgressItem (tso_key this) ''The Sims Online (FilePlanet)''
                 (INS_IN (textPath C this)) (ExtractingCab (fst cab) (snd cab)) (Num 100),
               SetProgressBar (Num 2)])
              (fst (cabinet A root))) @ [UnzipGc]"
    by (simp add: tso_extractCabs_fst tso_extractCabs_ui cf cabinet_extract_def)
  have 5: "first \<notin> existing (disk w) \<and> root \<notin> existing (disk w) \<longrightarrow>
        fst (tso_extractCabs C A this w) = Rejected (TSOExtractionFailed (cabinet_missing A))"
    by (simp add: tso_extractCabs_fst cf cabinet_extract_def)
  have 6: "(\<forall>p. snd (cabinet A p) = None) \<longrightarrow>
        (\<exists>e. fst (tso_extractCabs C A this w) = Rejected e) =
        (first \<notin> existing (disk w) \<and> root \<notin> existing (disk w))"
    by (simp add: tso_extractCabs_fst cf cabinet_extract_def)
  from cf [of fs] 1 2 3 4 5 6 show ?thesis
    unfolding first_def root_def by blast
qed


lemma example_cabs:
  "temp_TSO_path example_constants @ ''/'' @ temp_TSO_extractionFolder example_constants @ ''/''
     @ temp_TSO_firstCab example_constants = ''temp/tso/TSO_Installer_v1.1239.1.0/Data1.cab''"
  "temp_TSO_path example_constants @ ''/'' @ temp_TSO_extractionFolder example_constants @ ''/''
     @ temp_TSO_rootCab example_constants = ''temp/tso/Data1.cab''"
  by (simp_all add: example_constants_def)

theorem extractCabs_two_conventions_witness:
  "''temp/tso/TSO_Installer_v1.1239.1.0/Data1.cab'' \<in>
     existing \<lparr>existing = {''temp/tso/TSO_Installer_v1.1239.1.0/Data1.cab'',
                            ''temp/tso/Data1.cab''}, locked = {}\<rparr>
   \<and> fst (tso_extractCabs example_constants
        (example_answers\<lparr>cabinet := (\<lambda>p.
            if p = ''temp/tso/TSO_Installer_v1.1239.1.0/Data1.cab''
            then ([(''Data1.cab'', ''TSOClient/TSOClient.exe'')], None)
            else ([(''Data1.cab'', ''readme.txt'')], Some ''corrupt cabinet''))\<rparr>)
        (TSOInstaller example_constants 1700000000123 ''/games/tso'')
        \<lparr>disk = \<lparr>existing = {''temp/tso/TSO_Installer_v1.1239.1.0/Data1.cab'',
                               ''temp/tso/Data1.cab''}, locked = {}\<rparr>, ui = []\<rparr>)
       = Resolved ()
   \<and> ui (snd (snd (tso_extractCabs example_constants
        (example_answers\<lparr>cabinet := (\<lambda>p.
            if p = ''temp/tso/TSO_Installer_v1.1239.1.0/Data1.cab''
            then ([(''Data1.cab'', ''TSOClient/TSOClient.exe'')], None)
            else ([(''Data1.cab'', ''readme.txt'')], Some ''corrupt cabinet''))\<rparr>)
        (TSOInstaller example_constants 1700000000123 ''/games/tso'')
        \<lparr>disk = \<lparr>existing = {''temp/tso/TSO_Installer_v1.1239.1.0/Data1.cab'',
                               ''temp/tso/Data1.cab''}, locked = {}\<rparr>, ui = []\<rparr>)))
       = [AddProgressItem ''TSOProgressItem1700000000'' ''The Sims Online (FilePlanet)''
            (INS_IN ''/games/tso'') (ExtractingCab ''Data1.cab'' ''TSOClient/TSOClient.exe'')
            (Num 100),
          SetProgressBar (Num 2), UnzipGc]
   \<and> ''temp/tso/TSO_Installer_v1.1239.1.0/Data1.cab'' \<notin>
       existing \<lparr>existing = {''temp/tso/Data1.cab''}, locked = {}\<rparr>
   \<and> ''temp/tso/Data1.cab'' \<in> existing \<lparr>existing = {''temp/tso/Data1.cab''}, locked = {}\<rparr>
   \<and> fst (tso_extractCabs example_constants
        (example_answers\<lparr>cabinet := (\<lambda>p.
            if p = ''temp/tso/TSO_Installer_v1.1239.1.0/Data1.cab''
            then ([(''Data1.cab'', ''TSOClient/TSOClient.exe'')], None)
            else ([(''Data1.cab'', ''readme.txt'')], Some ''corrupt cabinet''))\<rparr>)
        (TSOInstaller example_constants 1700000000123 ''/games/tso'')
        \<lparr>disk = \<lparr>existing = {''temp/tso/Data1.cab''}, locked = {}\<rparr>, ui = []\<rparr>)
       = Rejected (TSOExtractionFailed ''corrupt cabinet'')
   \<and> tso_cab_from example_constants \<lparr>existing = {''temp/tso/Data1.cab''}, locked = {}\<rparr>
       = ''temp/tso/Data1.cab''
   \<and> ''temp/tso/TSO_Installer_v1.1239.1.0/Data1.cab'' \<notin> existing (disk empty_world)
   \<and> ''temp/tso/Data1.cab'' \<notin> existing (disk empty_world)
   \<and> (\<forall>p. snd (cabinet example_answers p) = None)
   \<and> fst (tso_extractCabs example_constants example_answers
            (TSOInstaller example_constants 1700000000123 ''/games/tso'') empty_world)
       = Rejected (TSOExtractionFailed ''ENOENT'')"
proof -
  define A where "A = example_answers\<lparr>cabinet := (\<lambda>p.
            if p = ''temp/tso/TSO_Installer_v1.1239.1.0/Data1.cab''
            then ([(''Data1.cab'', ''TSOClient/TSOClient.exe'')], None)
            else ([(''Data1.cab'', ''readme.txt'')], Some ''corrupt cabinet''))\<rparr>"
  define this where "this = TSOInstaller example_constants 1700000000123 ''/games/tso''"
  define both where
    "both = \<lparr>disk = \<lparr>existing = {''temp/tso/TSO_Installer_v1.1239.1.0/Data1.cab'',
                               ''temp/tso/Data1.cab''}, locked = {}\<rparr>, ui = []\<rparr>"
  define only_root where
    "only_root = \<lparr>disk = \<lparr>existing = {''temp/tso/Data1.cab''}, locked = {}\<rparr>, ui = []\<rparr>"
  have cab: "cabinet A ''temp/tso/TSO_Installer_v1.1239.1.0/Data1.cab''
               = ([(''Data1.cab'', ''TSOClient/TSOClient.exe'')], None)"
            "cabinet A ''temp/tso/Data1.cab''
               = ([(''Data1.cab'', ''readme.txt'')], Some ''corrupt cabinet'')"
    by (simp_all add: A_def)
  have tk: "tso_key this = ''TSOProgressItem1700000000''"
    "textPath example_constants this = ''/games/tso''"
    unfolding this_def by (rule example_tso_installer)+
  have p1: "''temp/tso/TSO_Installer_v1.1239.1.0/Data1.cab'' \<in>
     existing \<lparr>existing = {''temp/tso/TSO_Installer_v1.1239.1.0/Data1.cab'',
                            ''temp/tso/Data1.cab''}, locked = {}\<rparr>"
    by simp
  then have p1': "''temp/tso/TSO_Installer_v1.1239.1.0/Data1.cab'' \<in> existing (disk both)"
    by (simp add: both_def)
  note i1 = extractCabs_two_conventions [where C = example_constants and A = A and w = both
         and this = this and fs = "disk both", unfolded example_cabs,
         THEN conjunct2, THEN conjunct2, THEN conjunct2, THEN conjunct1]
  from mp [OF i1 p1']
  have primary: "fst (tso_extractCabs example_constants A this both) = Resolved ()"
    and primary_ui: "ui (snd (snd (tso_extractCabs example_constants A this both)))
       = [AddProgressItem ''TSOProgressItem1700000000'' ''The Sims Online (FilePlanet)''
            (INS_IN ''/games/tso'') (ExtractingCab ''Data1.cab'' ''TSOClient/TSOClient.exe'')
            (Num 100),
          SetProgressBar (Num 2), UnzipGc]"
    by (simp_all add: cab tk both_def)
  have p2: "''temp/tso/TSO_Installer_v1.1239.1.0/Data1.cab'' \<notin>
       existing \<lparr>existing = {''temp/tso/Data1.cab''}, locked = {}\<rparr>
     \<and> ''temp/tso/Data1.cab'' \<in> existing \<lparr>existing = {''temp/tso/Data1.cab''}, locked = {}\<rparr>"
    by simp
  then have p2': "''temp/tso/TSO_Installer_v1.1239.1.0/Data1.cab'' \<notin> existing (disk only_root)
     \<and> ''temp/tso/Data1.cab'' \<in> existing (disk only_root)"
    by (simp add: only_root_def)
  note i2 = extractCabs_two_conventions [where C = example_constants and A = A and w = only_root
         and this = this and fs = "\<lparr>existing = {''temp/tso/Data1.cab''}, locked = {}\<rparr>",
         unfolded example_cabs]
  from mp [OF i2 [THEN conjunct2, THEN conjunct2, THEN conjunct2, THEN conjunct2,
                  THEN conjunct1] p2']
  have fallback: "fst (tso_extractCabs example_constants A this only_root)
       = Rejected (TSOExtractionFailed ''corrupt cabinet'')"
    by (simp add: cab)
  from i2 [THEN conjunct1]
  have cf: "tso_cab_from example_constants \<lparr>existing = {''temp/tso/Data1.cab''}, locked = {}\<rparr>
       = ''temp/tso/Data1.cab''"
    by simp
  have neither: "''temp/tso/TSO_Installer_v1.1239.1.0/Data1.cab'' \<notin> existing (disk empty_world)
                 \<and> ''temp/tso/Data1.cab'' \<notin> existing (disk empty_world)"
    by (simp add: empty_world_def)
  have sound: "\<forall>p. snd (cabinet example_answers p) = None"
    by (simp add: example_answers_def)
  have missing: "cabinet_missing example_answers = ''ENOENT''"
    by (simp add: example_answers_def)
  note i3 = extractCabs_two_conventions
    [where C = example_constants and A = example_answers and w = empty_world
       and this = this and fs = "disk empty_world", unfolded example_cabs]
  from mp [OF i3 [THEN conjunct2, THEN conjunct2, THEN conjunct2, THEN conjunct2,
                  THEN conjunct2, THEN conjunct1] neither]
  have rejected: "fst (tso_extractCabs example_constants example_answers this empty_world)
       = Rejected (TSOExtractionFailed ''ENOENT'')"
    by (simp add: missing)
  from mp [OF i3 [THEN conjunct2, THEN conjunct2, THEN conjunct2, THEN conjunct2,
                  THEN conjunct2, THEN conjunct2] sound] neither
  have "\<exists>e. fst (tso_extractCabs example_constants example_answers this empty_world)
          = Rejected e"
    by simp
  from p1 primary primary_ui p2 fallback cf neither sound rejected show ?thesis
    unfolding A_def this_def both_def only_root_def by blast
qed


subsection \<open>The outcome of the steps and of install\<close>

lemma and_then_fst:
  "fst (and_then r f) =
     (case fst r of Rejected e \<Rightarrow> Rejected e
                  | Pending \<Rightarrow> Pending
                  | Resolved v \<Rightarrow> fst (f v (fst (snd r)) (snd (snd r))))"
  by (cases r) (simp add: and_then_def split: promise.splits)

lemma mac_steps_fst:
  "fst (mac_steps C A this w) =
     (if dl_hasFailed (download A) then Rejected FSO_NETWORK_ERROR
      else (case mkdir A of
              Some err \<Rightarrow> Rejected (External err)
            | None \<Rightarrow> (case unzip_error A of
                         Some err \<Rightarrow> Rejected (External err)
                       | None \<Rightarrow> Resolved ())))"
  by (simp add: mac_steps_def and_then_fst mac_download_def setupDir_def mac_extract_def Let_def
           split: option.splits)

lemma update_download_fst:
  "fst (update_download C A this w) =
     (if dl_hasFailed (download A) then Rejected UpdateDownloadFailed else Resolved ())"
  by (simp add: update_download_def Let_def)

lemma poll_disk:
  "disk (fst (poll (simitone_tick this) ss w)) = disk w"
  "disk (fst (poll (mac_tick C this) ss w)) = disk w"
  "disk (fst (poll (update_tick C this) ss w)) = disk w"
  "disk (fst (poll (tso_tick C this) ss w)) = disk w"
  using adds_progress_poll [of C "simitone_tick this" ss, OF adds_progress_ticks(2)]
        adds_progress_poll [of C "mac_tick C this" ss, OF adds_progress_ticks(1)]
        adds_progress_poll [of C "update_tick C this" ss, OF adds_progress_ticks(3)]
        adds_progress_poll [of C "tso_tick C this" ss, OF adds_progress_ticks(4)]
  by (simp_all add: adds_progress_def)

lemma simitone_create_disk:
  "disk (simitone_createProgressItem this m pct w) = disk w"
  by (simp add: simitone_createProgressItem_def emit_def)

lemma simitone_fold_disk:
  "disk (fold (\<lambda>entry. simitone_createProgressItem this (ExtractingFile entry) (Num 100)) fs w)
   = disk w"
  by (induction fs arbitrary: w) (simp_all add: simitone_create_disk)

lemma simitone_extract_fst:
  assumes "tempPath this \<in> existing (disk w)"
  shows "fst (simitone_extract A this w) =
     (case read_error A of
        Some err \<Rightarrow> Pending
      | None \<Rightarrow> (case unzip_error A of
                   Some err \<Rightarrow> Rejected (External err)
                 | None \<Rightarrow> Resolved ()))"
  using assms
  by (simp add: simitone_extract_def Let_def simitone_create_disk split: option.splits)

lemma simitone_upto_setupDir:
  assumes "release A = Inr tag_name" "\<not> dl_hasFailed (download A)" "mkdir A = None"
  shows "and_then (and_then (simitone_step1 A this w) (\<lambda>_. simitone_download A))
           (\<lambda>_. setupDir A)
         = (Resolved (),
            (case tag_name of None \<Rightarrow> this | Some t \<Rightarrow> this\<lparr>simitoneVersion := t\<rparr>),
            on_disk (dl_run (tempPath this) (download A))
              (fst (poll (simitone_tick
                 (case tag_name of None \<Rightarrow> this | Some t \<Rightarrow> this\<lparr>simitoneVersion := t\<rparr>))
                 (samples A) w)))"
  using assms
  by (simp add: and_then_def simitone_step1_def simitone_download_def Let_def setupDir_def
        split: option.splits)

lemma download_there:
  assumes "\<not> dl_hasFailed (download A)"
  shows "tp \<in> existing (disk (on_disk (dl_run tp (download A)) w))"
  using assms by (simp add: dl_hasFailed_def on_disk_def dl_run_def)

lemma simitone_steps_fst:
  "fst (simitone_steps A this w) =
     (case release A of
        Inl err \<Rightarrow> Rejected (External err)
      | Inr tag_name \<Rightarrow>
          (if dl_hasFailed (download A) then Rejected FSO_NETWORK_ERROR
           else (case mkdir A of
                   Some err \<Rightarrow> Rejected (External err)
                 | None \<Rightarrow>
                     (case read_error A of
                        Some err \<Rightarrow> Pending
                      | None \<Rightarrow>
                          (case unzip_error A of
                             Some err \<Rightarrow> Rejected (External err)
                           | None \<Rightarrow> (case registry A of
                                        Some err \<Rightarrow> Rejected (External err)
                                      | None \<Rightarrow> Resolved ()))))))"
proof (cases "release A")
  case (Inl err)
  then show ?thesis
    by (simp add: simitone_steps_def and_then_fst simitone_step1_def)
next
  case (Inr tag_name)
  show ?thesis
  proof (cases "dl_hasFailed (download A)")
    case True
    with Inr show ?thesis
      by (simp add: simitone_steps_def and_then_def simitone_step1_def simitone_download_def
            Let_def)
  next
    case False
    show ?thesis
    proof (cases "mkdir A")
      case (Some err)
      with Inr False show ?thesis
        by (simp add: simitone_steps_def and_then_def simitone_step1_def
              simitone_download_def Let_def setupDir_def)
    next
      case None
      have tp: "tempPath (case tag_name of None \<Rightarrow> this
                          | Some t \<Rightarrow> this\<lparr>simitoneVersion := t\<rparr>) = tempPath this"
        by (simp split: option.splits)
      from Inr False None show ?thesis
        unfolding simitone_steps_def simitone_upto_setupDir [OF Inr False None]
        by (simp add: and_then_fst simitone_extract_fst tp download_there [OF False]
              registry_step_def split: option.splits)
    qed
  qed
qed

lemma mac_steps_this: "fst (snd (mac_steps C A this w)) = this"
  by (simp add: mac_steps_def and_then_def mac_download_def setupDir_def mac_extract_def Let_def
           split: option.splits prod.splits promise.splits)

lemma update_download_this: "fst (snd (update_download C A this w)) = this"
  by (simp add: update_download_def Let_def)

lemma tso_steps_settles: "fst (tso_steps C A this w) \<noteq> Pending"
  by (simp add: tso_steps_def and_then_fst tso_download_def setupDir_def tso_extractZip_def
        tso_extractCabs_def registry_step_def Let_def
        split: option.splits prod.splits promise.splits)

lemma mac_install_fst: "fst (mac_install C A this w) = fst (mac_steps C A this w)"
  by (simp add: mac_install_def split: prod.splits promise.splits)

lemma simitone_install_fst: "fst (simitone_install A this w) = fst (simitone_steps A this w)"
  by (simp add: simitone_install_def simitone_error_def Let_def split: prod.splits promise.splits)

lemma update_install_fst: "fst (update_install C A this w) = fst (update_download C A this w)"
  by (simp add: update_install_def update_error_def Let_def split: prod.splits promise.splits)

lemma tso_install_fst: "fst (tso_install C A this w) = fst (tso_steps C A this w)"
  by (simp add: tso_install_def split: prod.splits promise.splits)


subsection \<open>The interface calls of end and error\<close>

lemma key_halt [simp]:
  "mac_key (this\<lparr>haltProgress := h\<rparr>) = mac_key this"
  "tso_key (this\<lparr>haltProgress := h\<rparr>) = tso_key this"
  "simitone_key (this\<lparr>haltProgress := h\<rparr>) = simitone_key this"
  "update_key (this\<lparr>haltProgress := h\<rparr>) = update_key this"
  "textPath C (this\<lparr>haltProgress := h\<rparr>) = textPath C this"
  by (simp_all add: mac_key_def tso_key_def simitone_key_def update_key_def textPath_def)

lemma progressBar_100 [simp]: "progressBar (Num 100) = Num 2"
  by (simp add: progressBar_def js_eq_def)

lemma mac_install_ui:
  "ui (snd (snd (mac_install C A this w))) =
     ui (snd (snd (mac_steps C A this w))) @
     (case fst (mac_steps C A this w) of
        Resolved v \<Rightarrow>
          [AddProgressItem (mac_key this) (parentComponent this @ '' MacExtras'')
             (INS_IN (textPath C this)) INSTALLATION_FINISHED (Num 100),
           SetProgressBar (Num 2),
           StopProgressItem (mac_key this)]
      | Rejected e \<Rightarrow>
          [AddProgressItem (mac_key this) (parentComponent this @ '' MacExtras'')
             (INS_IN (textPath C this)) (FailedInstallationOf ''macOS Extras'') (Num 100),
           SetProgressBar (Num 2),
           StopProgressItem (mac_key this)]
      | Pending \<Rightarrow> [])"
proof (cases "mac_steps C A this w")
  case (fields r this' w')
  with mac_steps_this [of C A this w] have "this' = this" by simp
  with fields show ?thesis
    by (cases r)
       (simp_all add: mac_install_def mac_end_def mac_error_def Let_def mac_createProgressItem_def
          emit_def on_disk_def)
qed

lemma update_install_ui:
  "ui (snd (snd (update_install C A this w))) =
     ui (snd (snd (update_download C A this w))) @
     (case fst (update_download C A this w) of
        Resolved v \<Rightarrow>
          [AddProgressItem (update_key this) ''FreeSO Launcher''
             (Subtitle (''Downloading from '' @ updateLocation C))
             (Text ''Download finished. Setup will start...'') (Num 100),
           StopProgressItem (update_key this), CloseWindowLater, ExecInstaller]
      | Rejected e \<Rightarrow>
          [AddProgressItem (update_key this) ''FreeSO Launcher''
             (Subtitle (''Downloading from '' @ updateLocation C))
             (Text (update_failed_text C)) (Num 100),
           StopProgressItem (update_key this), ShowFailedUpdateDownload]
      | Pending \<Rightarrow> [])"
proof (cases "update_download C A this w")
  case (fields r this' w')
  with update_download_this [of C A this w] have "this' = this" by simp
  with fields show ?thesis
    by (cases r)
       (simp_all add: update_install_def update_end_def update_error_def Let_def
          update_createProgressItem_def emit_def)
qed

lemma simitone_install_ui:
  "ui (snd (snd (simitone_install A this w))) =
     ui (snd (snd (simitone_steps A this w))) @
     (case fst (simitone_steps A this w) of
        Resolved v \<Rightarrow>
          [AddProgressItem (simitone_key this)
             (''Simitone Client '' @ simitoneVersion (fst (snd (simitone_steps A this w))))
             (Subtitle (''Installing in '' @ path this)) INSTALLATION_FINISHED (Num 100),
           StopProgressItem (simitone_key this), UpdateInstalledPrograms,
           RemoveActiveTask ''Simitone'']
          @ (if simitoneVersion (fst (snd (simitone_steps A this w))) \<noteq> []
             then [SetConfiguration [''Game'', ''SimitoneVersion'',
                     simitoneVersion (fst (snd (simitone_steps A this w)))]]
             else [])
          @ [ShowInstalled ''Simitone'']
      | Rejected e \<Rightarrow>
          [AddProgressItem (simitone_key this)
             (''Simitone Client '' @ simitoneVersion (fst (snd (simitone_steps A this w))))
             (Subtitle (''Installing in '' @ path this)) FSO_FAILED_INSTALLATION (Num 100),
           StopProgressItem (simitone_key this), RemoveActiveTask ''Simitone'',
           ShowFailedInstall ''Simitone'' e]
      | Pending \<Rightarrow> [])"
proof (cases "simitone_steps A this w")
  case (fields r this' w')
  from quiet_simitone_steps [of example_constants this w A] fields
  have same: "id' this' = id' this" "path this' = path this"
    by (simp_all add: quiet_def)
  then have key: "simitone_key this' = simitone_key this"
    by (simp add: simitone_key_def)
  from fields same key show ?thesis
    by (cases r)
       (simp_all add: simitone_install_def simitone_end_def simitone_error_def Let_def
          simitone_createProgressItem_def emit_def)
qed

lemma tso_install_ui:
  "ui (snd (snd (tso_install C A this w))) =
     ui (snd (snd (tso_steps C A this w))) @
     (case fst (tso_steps C A this w) of
        Resolved v \<Rightarrow>
          [AddProgressItem (tso_key this) ''The Sims Online (FilePlanet)''
             (INS_IN (textPath C this)) INSTALLATION_FINISHED (Num 100),
           SetProgressBar (Num 2),
           StopProgressItem (tso_key this)]
      | Rejected e \<Rightarrow>
          [AddProgressItem (tso_key this) ''The Sims Online (FilePlanet)''
             (INS_IN (textPath C this)) TSO_FAILED_INSTALLATION (Num 100),
           SetProgressBar (Num 2),
           StopProgressItem (tso_key this)]
      | Pending \<Rightarrow> [])"
proof (cases "tso_steps C A this w")
  case (fields r this' w')
  from quiet_tso_steps [of C this w A] fields
  have same: "id' this' = id' this" "path this' = path this"
    by (simp_all add: quiet_def)
  then have key: "tso_key this' = tso_key this" "textPath C this' = textPath C this"
    by (simp_all add: tso_key_def textPath_def)
  from fields key show ?thesis
    by (cases r)
       (simp_all add: tso_install_def tso_end_def tso_error_def Let_def tso_createProgressItem_def
          emit_def on_disk_def)
qed


subsection \<open>Counting over the calls of the steps\<close>

lemma stops_append: "stops k (xs @ ys) = stops k xs + stops k ys"
  by (simp add: stops_def)

lemma progress_no_stop: "list_all (is_progress C) evs \<Longrightarrow> stops k evs = 0"
  by (induction evs) (auto simp: stops_def is_progress_def split: event.splits)

lemma progress_no_failure_item:
  "list_all (is_progress C) evs \<Longrightarrow> failure_items C evs = []"
  by (induction evs)
     (auto simp: failure_items_def is_progress_def is_failure_item_def split: event.splits)

lemma progress_no_failure_dialog: "list_all (is_progress C) evs \<Longrightarrow> failure_dialogs evs = []"
  by (induction evs)
     (auto simp: failure_dialogs_def is_progress_def is_failure_dialog_def split: event.splits)

lemma quiet_counts:
  assumes "quiet C this w r"
  shows "stops k (ui (snd (snd r))) = stops k (ui w)"
    and "failure_items C (ui (snd (snd r))) = failure_items C (ui w)"
    and "failure_dialogs (ui (snd (snd r))) = failure_dialogs (ui w)"
proof -
  from assms obtain evs where evs: "ui (snd (snd r)) = ui w @ evs" "list_all (is_progress C) evs"
    by (auto simp: quiet_def)
  show "stops k (ui (snd (snd r))) = stops k (ui w)"
    using evs by (simp add: stops_append progress_no_stop)
  from progress_no_failure_item [OF evs(2)]
  show "failure_items C (ui (snd (snd r))) = failure_items C (ui w)"
    using evs(1) by (simp add: failure_items_def)
  from progress_no_failure_dialog [OF evs(2)]
  show "failure_dialogs (ui (snd (snd r))) = failure_dialogs (ui w)"
    using evs(1) by (simp add: failure_dialogs_def)
qed



subsection \<open>One stop per run\<close>

lemma stops_of_run:
  "stops (mac_key this) (ui (snd (snd (mac_install C A this w)))) = stops (mac_key this) (ui w) + 1"
  "stops (update_key this) (ui (snd (snd (update_install C A this w))))
     = stops (update_key this) (ui w) + 1"
  "stops (tso_key this) (ui (snd (snd (tso_install C A this w)))) = stops (tso_key this) (ui w) + 1"
  "stops (simitone_key this) (ui (snd (snd (simitone_install A this w))))
     = stops (simitone_key this) (ui w)
       + (if fst (simitone_install A this w) = Pending then 0 else 1)"
proof -
  show "stops (mac_key this) (ui (snd (snd (mac_install C A this w))))
        = stops (mac_key this) (ui w) + 1"
    by (simp add: mac_install_ui stops_append quiet_counts(1) [OF quiet_mac_steps] mac_steps_fst)
       (simp add: stops_def split: option.splits)
  show "stops (update_key this) (ui (snd (snd (update_install C A this w))))
       = stops (update_key this) (ui w) + 1"
    by (simp add: update_install_ui stops_append quiet_counts(1) [OF quiet_update_download]
          update_download_fst)
       (simp add: stops_def)
  show "stops (tso_key this) (ui (snd (snd (tso_install C A this w))))
        = stops (tso_key this) (ui w) + 1"
    using tso_steps_settles [of C A this w]
    by (simp add: tso_install_ui stops_append quiet_counts(1) [OF quiet_tso_steps])
       (simp add: stops_def split: promise.splits)
  show "stops (simitone_key this) (ui (snd (snd (simitone_install A this w))))
     = stops (simitone_key this) (ui w)
       + (if fst (simitone_install A this w) = Pending then 0 else 1)"
    by (simp add: simitone_install_ui stops_append
          quiet_counts(1) [OF quiet_simitone_steps [of example_constants]] simitone_install_fst)
       (simp add: stops_def split: promise.splits)
qed

lemma example_simitone_installer:
  "tempPath (SimitoneInstaller 1700000000123 ''C:/Games/Simitone'')
     = ''temp/artifacts-simitone-1700000000.zip''"
  "simitone_key (SimitoneInstaller 1700000000123 ''C:/Games/Simitone'')
     = ''FSOProgressItem1700000000''"
  "path (SimitoneInstaller 1700000000123 ''C:/Games/Simitone'') = ''C:/Games/Simitone''"
  "\<not> haltProgress (SimitoneInstaller 1700000000123 ''C:/Games/Simitone'')"
  by (simp_all add: SimitoneInstaller_def run_id_def show_int_example simitone_key_def)

lemma poll_one: "fst (poll tick [s] w) = fst (tick s w)"
  by (simp split: prod.splits)

lemma example_simitone_steps_ui:
  assumes "samples A = [(Num 40, Num 10, Num 25)]" "release A = Inr (Some ''v1.0'')"
    "download A = DownloadOk" "mkdir A = None" "unzip_files A = [''Simitone.Windows.exe'']"
  shows "ui (snd (snd (simitone_steps A
           (SimitoneInstaller 1700000000123 ''C:/Games/Simitone'') empty_world)))
     = [AddProgressItem ''FSOProgressItem1700000000'' ''Simitone Client v1.0''
          (Subtitle ''Installing in C:/Games/Simitone'')
          (Downloading (Num 10) (Num 25) (Num 40)) (Num 40),
        AddProgressItem ''FSOProgressItem1700000000'' ''Simitone Client v1.0''
          (Subtitle ''Installing in C:/Games/Simitone'') EXTRACTING_CLIENT_FILES (Num 100),
        AddProgressItem ''FSOProgressItem1700000000'' ''Simitone Client v1.0''
          (Subtitle ''Installing in C:/Games/Simitone'')
          (ExtractingFile ''Simitone.Windows.exe'') (Num 100)]"
proof -
  have d: "\<not> dl_hasFailed (download A)" using assms by (simp add: dl_hasFailed_def)
  have k: "simitone_key ((SimitoneInstaller 1700000000123 ''C:/Games/Simitone'')
             \<lparr>simitoneVersion := ''v1.0''\<rparr>) = ''FSOProgressItem1700000000''"
    by (simp add: SimitoneInstaller_def run_id_def show_int_example simitone_key_def)
  show ?thesis
    unfolding simitone_steps_def simitone_upto_setupDir [OF assms(2) d assms(4)]
    using assms(1,3,5)
    by (simp add: and_then_def simitone_extract_def Let_def registry_step_def on_disk_def
          dl_run_def simitone_createProgressItem_def emit_def empty_world_def
          simitone_tick_def isNaN_def js_less_def k example_simitone_installer
          split: option.splits)
qed

text \<open>
  Claim C5 on the code. A Simitone run whose download succeeded and whose archive then
  cannot be read to its end never settles: the stream that reads the archive has no
  listener for \<open>error\<close>, the unzip stream gets neither \<open>error\<close> nor \<open>close\<close>, and neither
  \<open>end\<close> nor \<open>error\<close> of the installer runs. The run has shown its progress and calls
  \<open>stopProgressItem\<close> for its key zero times. The same run calls it once when the unzip
  stream itself reports the error, and once when every step succeeds.
\<close>

theorem simitone_unreadable_archive_never_stops:
  "fst (simitone_install (example_answers\<lparr>read_error := Some ''EIO: i/o error, read''\<rparr>)
         (SimitoneInstaller 1700000000123 ''C:/Games/Simitone'') empty_world)
     = Pending
   \<and> simitone_key (SimitoneInstaller 1700000000123 ''C:/Games/Simitone'')
     = ''FSOProgressItem1700000000''
   \<and> ui (snd (snd (simitone_install
         (example_answers\<lparr>read_error := Some ''EIO: i/o error, read''\<rparr>)
         (SimitoneInstaller 1700000000123 ''C:/Games/Simitone'') empty_world)))
     = [AddProgressItem ''FSOProgressItem1700000000'' ''Simitone Client v1.0''
          (Subtitle ''Installing in C:/Games/Simitone'')
          (Downloading (Num 10) (Num 25) (Num 40)) (Num 40),
        AddProgressItem ''FSOProgressItem1700000000'' ''Simitone Client v1.0''
          (Subtitle ''Installing in C:/Games/Simitone'') EXTRACTING_CLIENT_FILES (Num 100),
        AddProgressItem ''FSOProgressItem1700000000'' ''Simitone Client v1.0''
          (Subtitle ''Installing in C:/Games/Simitone'')
          (ExtractingFile ''Simitone.Windows.exe'') (Num 100)]
   \<and> stops ''FSOProgressItem1700000000''
        (ui (snd (snd (simitone_install
           (example_answers\<lparr>read_error := Some ''EIO: i/o error, read''\<rparr>)
           (SimitoneInstaller 1700000000123 ''C:/Games/Simitone'') empty_world)))) = 0
   \<and> fst (simitone_install (example_answers\<lparr>unzip_error := Some ''invalid signature''\<rparr>)
         (SimitoneInstaller 1700000000123 ''C:/Games/Simitone'') empty_world)
     = Rejected (External ''invalid signature'')
   \<and> stops ''FSOProgressItem1700000000''
        (ui (snd (snd (simitone_install
           (example_answers\<lparr>unzip_error := Some ''invalid signature''\<rparr>)
           (SimitoneInstaller 1700000000123 ''C:/Games/Simitone'') empty_world)))) = 1
   \<and> fst (simitone_install example_answers
         (SimitoneInstaller 1700000000123 ''C:/Games/Simitone'') empty_world)
     = Resolved ()
   \<and> stops ''FSOProgressItem1700000000''
        (ui (snd (snd (simitone_install example_answers
           (SimitoneInstaller 1700000000123 ''C:/Games/Simitone'') empty_world)))) = 1"
proof -
  define S where "S = SimitoneInstaller 1700000000123 ''C:/Games/Simitone''"
  define R where "R = example_answers\<lparr>read_error := Some ''EIO: i/o error, read''\<rparr>"
  define U where "U = example_answers\<lparr>unzip_error := Some ''invalid signature''\<rparr>"
  have key: "simitone_key S = ''FSOProgressItem1700000000''"
    unfolding S_def by (rule example_simitone_installer)
  have r: "fst (simitone_install R S empty_world) = Pending"
    by (simp add: simitone_install_fst simitone_steps_fst R_def example_answers_def
          dl_hasFailed_def)
  have u: "fst (simitone_install U S empty_world) = Rejected (External ''invalid signature'')"
    by (simp add: simitone_install_fst simitone_steps_fst U_def example_answers_def
          dl_hasFailed_def)
  have e: "fst (simitone_install example_answers S empty_world) = Resolved ()"
    by (simp add: simitone_install_fst simitone_steps_fst example_answers_def dl_hasFailed_def)
  have "ui (snd (snd (simitone_install R S empty_world)))
        = ui (snd (snd (simitone_steps R S empty_world)))"
    using r by (simp add: simitone_install_ui simitone_install_fst)
  also have "\<dots> = [AddProgressItem ''FSOProgressItem1700000000'' ''Simitone Client v1.0''
          (Subtitle ''Installing in C:/Games/Simitone'')
          (Downloading (Num 10) (Num 25) (Num 40)) (Num 40),
        AddProgressItem ''FSOProgressItem1700000000'' ''Simitone Client v1.0''
          (Subtitle ''Installing in C:/Games/Simitone'') EXTRACTING_CLIENT_FILES (Num 100),
        AddProgressItem ''FSOProgressItem1700000000'' ''Simitone Client v1.0''
          (Subtitle ''Installing in C:/Games/Simitone'')
          (ExtractingFile ''Simitone.Windows.exe'') (Num 100)]"
    unfolding S_def
    by (rule example_simitone_steps_ui) (simp_all add: R_def example_answers_def)
  finally have trace: "ui (snd (snd (simitone_install R S empty_world)))
     = [AddProgressItem ''FSOProgressItem1700000000'' ''Simitone Client v1.0''
          (Subtitle ''Installing in C:/Games/Simitone'')
          (Downloading (Num 10) (Num 25) (Num 40)) (Num 40),
        AddProgressItem ''FSOProgressItem1700000000'' ''Simitone Client v1.0''
          (Subtitle ''Installing in C:/Games/Simitone'') EXTRACTING_CLIENT_FILES (Num 100),
        AddProgressItem ''FSOProgressItem1700000000'' ''Simitone Client v1.0''
          (Subtitle ''Installing in C:/Games/Simitone'')
          (ExtractingFile ''Simitone.Windows.exe'') (Num 100)]" .
  have none: "stops ''FSOProgressItem1700000000''
                (ui (snd (snd (simitone_install R S empty_world)))) = 0"
    unfolding trace by (simp add: stops_def)
  have one_u: "stops ''FSOProgressItem1700000000''
                (ui (snd (snd (simitone_install U S empty_world)))) = 1"
    using stops_of_run(4) [of S U empty_world] u
    by (simp add: key empty_world_def stops_def)
  have one_e: "stops ''FSOProgressItem1700000000''
                (ui (snd (snd (simitone_install example_answers S empty_world)))) = 1"
    using stops_of_run(4) [of S example_answers empty_world] e
    by (simp add: key empty_world_def stops_def)
  from r key trace none u one_u e one_e show ?thesis
    unfolding S_def R_def U_def by blast
qed



subsection \<open>A failing step\<close>

lemma tso_fold_disk:
  "disk (fold (\<lambda>filename. tso_createProgressItem C this (ExtractingFile filename) (Num 100)) fs w)
   = disk w"
  by (induction fs arbitrary: w) (simp_all add: tso_create_disk)

lemma tso_upto_extractZip:
  assumes "\<not> dl_hasFailed (download A)" "mkdir A = None" "unzip_error A = None"
  shows "\<exists>w3. and_then (and_then (tso_download C A this w) (\<lambda>_. setupDir A))
                 (\<lambda>_. tso_extractZip C A)
               = (Resolved (), this\<lparr>haltProgress := True\<rparr>, w3)
             \<and> disk w3 = unzip_write (unzipped A)
                            (dl_run (tempPath this) (download A) (disk w))"
  using assms
  by (simp add: and_then_def tso_download_def setupDir_def tso_extractZip_def Let_def
        on_disk_def poll_disk tso_fold_disk tso_create_disk)

lemma tso_steps_fst:
  "fst (tso_steps C A this w) =
     (if dl_hasFailed (download A) then Rejected FSO_NETWORK_ERROR
      else (case mkdir A of
              Some err \<Rightarrow> Rejected (External err)
            | None \<Rightarrow>
                (case unzip_error A of
                   Some err \<Rightarrow> Rejected (External err)
                 | None \<Rightarrow>
                     (case snd (cabinet_extract A
                                  (unzip_write (unzipped A)
                                     (dl_run (tempPath this) (download A) (disk w)))
                                  (tso_cab_from C
                                     (unzip_write (unzipped A)
                                        (dl_run (tempPath this) (download A) (disk w))))) of
                        Some e \<Rightarrow> Rejected (TSOExtractionFailed e)
                      | None \<Rightarrow> (case registry A of
                                   Some err \<Rightarrow> Rejected (External err)
                                 | None \<Rightarrow> Resolved ())))))"
proof (cases "dl_hasFailed (download A)")
  case True
  then show ?thesis
    by (simp add: tso_steps_def and_then_def tso_download_def Let_def)
next
  case False
  show ?thesis
  proof (cases "mkdir A")
    case (Some err)
    with False show ?thesis
      by (simp add: tso_steps_def and_then_def tso_download_def Let_def setupDir_def)
  next
    case None
    show ?thesis
    proof (cases "unzip_error A")
      case (Some err)
      with False None show ?thesis
        by (simp add: tso_steps_def and_then_def tso_download_def Let_def setupDir_def
              tso_extractZip_def)
    next
      case unzipped: None
      from tso_upto_extractZip [OF False None unzipped, of C this w]
      obtain w3 where
        r3: "and_then (and_then (tso_download C A this w) (\<lambda>_. setupDir A))
               (\<lambda>_. tso_extractZip C A) = (Resolved (), this\<lparr>haltProgress := True\<rparr>, w3)"
        and d3: "disk w3 = unzip_write (unzipped A) (dl_run (tempPath this) (download A) (disk w))"
        by blast
      from False None unzipped show ?thesis
        unfolding tso_steps_def r3
        by (simp add: and_then_fst tso_extractCabs_fst d3 registry_step_def
              split: option.splits)
    qed
  qed
qed

lemma fl_40_100: "fl (40 / 100) = 3602879701896397 / 9007199254740992"
  using fl_nearest [of "- 2" "40 / 100" 7205759403792794] by (simp add: power_int_minus)

lemma progressBar_40: "progressBar (Num 40) = Num (3602879701896397 / 9007199254740992)"
proof -
  have "js_div (Num 40) 100 = Num (3602879701896397 / 9007199254740992)"
    unfolding js_div_def js_number_def jsnum.case fl_40_100 by simp
  then show ?thesis by (simp add: progressBar_def js_eq_def)
qed

lemma example_mac_installer:
  "mac_key (MacExtrasInstaller example_constants 1700000000123 ''/Applications/FreeSO'' None)
     = ''FSOProgressItem1700000000''"
  "textPath example_constants
     (MacExtrasInstaller example_constants 1700000000123 ''/Applications/FreeSO'' None)
     = ''/Applications/FreeSO''"
  "parentComponent (MacExtrasInstaller example_constants 1700000000123 ''/Applications/FreeSO'' None)
     = ''FreeSO''"
  "tempPath (MacExtrasInstaller example_constants 1700000000123 ''/Applications/FreeSO'' None)
     = ''temp/macextras-1700000000.zip''"
  "\<not> haltProgress (MacExtrasInstaller example_constants 1700000000123 ''/Applications/FreeSO'' None)"
  by (simp_all add: mac_key_def MacExtrasInstaller_def run_id_def show_int_example textPath_def
        example_constants_def)

lemma example_mac_tick:
  "fst (mac_tick example_constants
          (MacExtrasInstaller example_constants 1700000000123 ''/Applications/FreeSO'' None)
          (Num 40, Num 10, Num 25) w)
   = emit [AddProgressItem ''FSOProgressItem1700000000'' ''FreeSO MacExtras''
             (INS_IN ''/Applications/FreeSO'') (Downloading (Num 10) (Num 25) (Num 40)) (Num 40),
           SetProgressBar (Num (3602879701896397 / 9007199254740992))] w"
  "snd (mac_tick example_constants
          (MacExtrasInstaller example_constants 1700000000123 ''/Applications/FreeSO'' None)
          (Num 40, Num 10, Num 25) w)"
  by (simp_all add: mac_tick_def Let_def isNaN_def js_less_def mac_createProgressItem_def
        example_mac_installer progressBar_40)

lemma example_mac_download_ui:
  "samples A = [(Num 40, Num 10, Num 25)] \<Longrightarrow>
   ui (snd (snd (mac_download example_constants A
        (MacExtrasInstaller example_constants 1700000000123 ''/Applications/FreeSO'' None)
        empty_world)))
   = [AddProgressItem ''FSOProgressItem1700000000'' ''FreeSO MacExtras''
        (INS_IN ''/Applications/FreeSO'') (Downloading (Num 10) (Num 25) (Num 40)) (Num 40),
      SetProgressBar (Num (3602879701896397 / 9007199254740992))]"
  by (simp add: mac_download_def Let_def poll_one example_mac_tick on_disk_def emit_def
        empty_world_def del: poll.simps)

lemma mac_steps_mkdir_fails:
  assumes "download A = DownloadOk" "mkdir A = Some err"
  shows "mac_steps C A this w = (Rejected (External err), this, snd (snd (mac_download C A this w)))"
  using assms
  by (simp add: mac_steps_def and_then_def mac_download_def setupDir_def Let_def dl_hasFailed_def)

lemma failure_items_simps:
  "failure_items C [] = []"
  "failure_items C (xs @ ys) = failure_items C xs @ failure_items C ys"
  "failure_items C (x # xs) =
     (if is_failure_item C x then x # failure_items C xs else failure_items C xs)"
  by (simp_all add: failure_items_def)

lemma failure_dialogs_simps:
  "failure_dialogs [] = []"
  "failure_dialogs (xs @ ys) = failure_dialogs xs @ failure_dialogs ys"
  "failure_dialogs (x # xs) =
     (if is_failure_dialog x then x # failure_dialogs xs else failure_dialogs xs)"
  by (simp_all add: failure_dialogs_def)

lemma mac_failure_items:
  "failure_items C (ui (snd (snd (mac_install C A this w)))) =
     failure_items C (ui w) @
     (case fst (mac_install C A this w) of
        Resolved v \<Rightarrow> []
      | Rejected e \<Rightarrow>
          [AddProgressItem (mac_key this) (parentComponent this @ '' MacExtras'')
             (INS_IN (textPath C this)) (FailedInstallationOf ''macOS Extras'') (Num 100)]
      | Pending \<Rightarrow> [])"
  by (simp add: quiet_counts(2) [OF quiet_mac_steps] mac_install_ui mac_install_fst
        failure_items_simps is_failure_item_def is_failure_message_def split: promise.splits)

lemma tso_failure_items:
  "failure_items C (ui (snd (snd (tso_install C A this w)))) =
     failure_items C (ui w) @
     (case fst (tso_install C A this w) of
        Resolved v \<Rightarrow> []
      | Rejected e \<Rightarrow>
          [AddProgressItem (tso_key this) ''The Sims Online (FilePlanet)''
             (INS_IN (textPath C this)) TSO_FAILED_INSTALLATION (Num 100)]
      | Pending \<Rightarrow> [])"
  by (simp add: quiet_counts(2) [OF quiet_tso_steps] tso_install_ui tso_install_fst
        failure_items_simps is_failure_item_def is_failure_message_def split: promise.splits)

lemma update_failure_items:
  "failure_items C (ui (snd (snd (update_install C A this w)))) =
     failure_items C (ui w) @
     (case fst (update_install C A this w) of
        Resolved v \<Rightarrow> []
      | Rejected e \<Rightarrow>
          [AddProgressItem (update_key this) ''FreeSO Launcher''
             (Subtitle (''Downloading from '' @ updateLocation C))
             (Text (update_failed_text C)) (Num 100)]
      | Pending \<Rightarrow> [])"
  by (simp add: quiet_counts(2) [OF quiet_update_download] update_install_ui update_install_fst
        failure_items_simps is_failure_item_def is_failure_message_def update_failed_text_def
        split: promise.splits)

lemma simitone_failure_items:
  "failure_items C (ui (snd (snd (simitone_install A this w)))) =
     failure_items C (ui w) @
     (case fst (simitone_install A this w) of
        Resolved v \<Rightarrow> []
      | Rejected e \<Rightarrow>
          [AddProgressItem (simitone_key this)
             (''Simitone Client '' @ simitoneVersion (fst (snd (simitone_install A this w))))
             (Subtitle (''Installing in '' @ path this)) FSO_FAILED_INSTALLATION (Num 100)]
      | Pending \<Rightarrow> [])"
proof -
  have v: "simitoneVersion (fst (snd (simitone_install A this w)))
           = simitoneVersion (fst (snd (simitone_steps A this w)))"
    by (simp add: simitone_install_def simitone_error_def Let_def
          split: prod.splits promise.splits)
  show ?thesis
    by (simp add: quiet_counts(2) [OF quiet_simitone_steps] simitone_install_ui
          simitone_install_fst v failure_items_simps is_failure_item_def is_failure_message_def
          split: promise.splits)
qed

lemma run_failure_dialogs:
  "failure_dialogs (ui (snd (snd (mac_install C A this w)))) = failure_dialogs (ui w)"
  "failure_dialogs (ui (snd (snd (tso_install C A this w)))) = failure_dialogs (ui w)"
  "failure_dialogs (ui (snd (snd (update_install C A this w)))) =
     failure_dialogs (ui w) @
     (case fst (update_install C A this w) of
        Resolved v \<Rightarrow> [] | Rejected e \<Rightarrow> [ShowFailedUpdateDownload] | Pending \<Rightarrow> [])"
  "failure_dialogs (ui (snd (snd (simitone_install A this w)))) =
     failure_dialogs (ui w) @
     (case fst (simitone_install A this w) of
        Resolved v \<Rightarrow> [] | Rejected e \<Rightarrow> [ShowFailedInstall ''Simitone'' e] | Pending \<Rightarrow> [])"
proof -
  show "failure_dialogs (ui (snd (snd (mac_install C A this w)))) = failure_dialogs (ui w)"
    by (simp add: quiet_counts(3) [OF quiet_mac_steps [of C]] mac_install_ui
          failure_dialogs_simps is_failure_dialog_def split: promise.splits)
  show "failure_dialogs (ui (snd (snd (tso_install C A this w)))) = failure_dialogs (ui w)"
    by (simp add: quiet_counts(3) [OF quiet_tso_steps [of C]] tso_install_ui
          failure_dialogs_simps is_failure_dialog_def split: promise.splits)
  show "failure_dialogs (ui (snd (snd (update_install C A this w)))) =
     failure_dialogs (ui w) @
     (case fst (update_install C A this w) of
        Resolved v \<Rightarrow> [] | Rejected e \<Rightarrow> [ShowFailedUpdateDownload] | Pending \<Rightarrow> [])"
    by (simp add: quiet_counts(3) [OF quiet_update_download [of C]] update_install_ui
          update_install_fst failure_dialogs_simps is_failure_dialog_def split: promise.splits)
  show "failure_dialogs (ui (snd (snd (simitone_install A this w)))) =
     failure_dialogs (ui w) @
     (case fst (simitone_install A this w) of
        Resolved v \<Rightarrow> [] | Rejected e \<Rightarrow> [ShowFailedInstall ''Simitone'' e] | Pending \<Rightarrow> [])"
    by (simp add: quiet_counts(3) [OF quiet_simitone_steps [of example_constants]]
          simitone_install_ui simitone_install_fst failure_dialogs_simps is_failure_dialog_def
          split: promise.splits)
qed


lemma install_outcome:
  "fst (mac_install C A this w) =
     (if dl_hasFailed (download A) then Rejected FSO_NETWORK_ERROR
      else (case mkdir A of
              Some err \<Rightarrow> Rejected (External err)
            | None \<Rightarrow> (case unzip_error A of
                         Some err \<Rightarrow> Rejected (External err)
                       | None \<Rightarrow> Resolved ())))"
  "fst (tso_install C A this w) =
     (if dl_hasFailed (download A) then Rejected FSO_NETWORK_ERROR
      else (case mkdir A of
              Some err \<Rightarrow> Rejected (External err)
            | None \<Rightarrow>
                (case unzip_error A of
                   Some err \<Rightarrow> Rejected (External err)
                 | None \<Rightarrow>
                     (case snd (cabinet_extract A
                                  (unzip_write (unzipped A)
                                     (dl_run (tempPath this) (download A) (disk w)))
                                  (tso_cab_from C
                                     (unzip_write (unzipped A)
                                        (dl_run (tempPath this) (download A) (disk w))))) of
                        Some e \<Rightarrow> Rejected (TSOExtractionFailed e)
                      | None \<Rightarrow> (case registry A of
                                   Some err \<Rightarrow> Rejected (External err)
                                 | None \<Rightarrow> Resolved ())))))"
  "fst (update_install C A this w) =
     (if dl_hasFailed (download A) then Rejected UpdateDownloadFailed else Resolved ())"
  "fst (simitone_install A this w) =
     (case release A of
        Inl err \<Rightarrow> Rejected (External err)
      | Inr tag_name \<Rightarrow>
          (if dl_hasFailed (download A) then Rejected FSO_NETWORK_ERROR
           else (case mkdir A of
                   Some err \<Rightarrow> Rejected (External err)
                 | None \<Rightarrow>
                     (case read_error A of
                        Some err \<Rightarrow> Pending
                      | None \<Rightarrow>
                          (case unzip_error A of
                             Some err \<Rightarrow> Rejected (External err)
                           | None \<Rightarrow> (case registry A of
                                        Some err \<Rightarrow> Rejected (External err)
                                      | None \<Rightarrow> Resolved ()))))))"
  by (simp_all only: mac_install_fst mac_steps_fst tso_install_fst tso_steps_fst
        update_install_fst update_download_fst simitone_install_fst simitone_steps_fst)

text \<open>
  Claim C4, as stated: the one failure notification at 100 per cent carries the error
  detail. It fails: \<open>error\<close> ignores its argument when it builds the progress item. Two
  MacExtras runs whose directory creation fails with different errors reject with
  different errors and make the same interface calls; the failure notification shows
  the fixed text for \<open>macOS Extras\<close>.
\<close>

theorem failure_item_without_detail:
  "fst (mac_install example_constants (example_answers\<lparr>mkdir := Some ''EACCES: permission denied''\<rparr>)
         (MacExtrasInstaller example_constants 1700000000123 ''/Applications/FreeSO'' None)
         empty_world)
     = Rejected (External ''EACCES: permission denied'')
   \<and> fst (mac_install example_constants (example_answers\<lparr>mkdir := Some ''ENOSPC: no space left on device''\<rparr>)
         (MacExtrasInstaller example_constants 1700000000123 ''/Applications/FreeSO'' None)
         empty_world)
     = Rejected (External ''ENOSPC: no space left on device'')
   \<and> ui (snd (snd (mac_install example_constants
         (example_answers\<lparr>mkdir := Some ''EACCES: permission denied''\<rparr>)
         (MacExtrasInstaller example_constants 1700000000123 ''/Applications/FreeSO'' None)
         empty_world)))
     = [AddProgressItem ''FSOProgressItem1700000000'' ''FreeSO MacExtras''
          (INS_IN ''/Applications/FreeSO'') (Downloading (Num 10) (Num 25) (Num 40)) (Num 40),
        SetProgressBar (Num (3602879701896397 / 9007199254740992)),
        AddProgressItem ''FSOProgressItem1700000000'' ''FreeSO MacExtras''
          (INS_IN ''/Applications/FreeSO'') (FailedInstallationOf ''macOS Extras'') (Num 100),
        SetProgressBar (Num 2),
        StopProgressItem ''FSOProgressItem1700000000'']
   \<and> ui (snd (snd (mac_install example_constants
         (example_answers\<lparr>mkdir := Some ''ENOSPC: no space left on device''\<rparr>)
         (MacExtrasInstaller example_constants 1700000000123 ''/Applications/FreeSO'' None)
         empty_world)))
     = ui (snd (snd (mac_install example_constants
         (example_answers\<lparr>mkdir := Some ''EACCES: permission denied''\<rparr>)
         (MacExtrasInstaller example_constants 1700000000123 ''/Applications/FreeSO'' None)
         empty_world)))"
proof -
  have a: "download (example_answers\<lparr>mkdir := Some e\<rparr>) = DownloadOk"
          "mkdir (example_answers\<lparr>mkdir := Some e\<rparr>) = Some e"
          "samples (example_answers\<lparr>mkdir := Some e\<rparr>) = [(Num 40, Num 10, Num 25)]" for e
    by (simp_all add: example_answers_def)
  have steps: "mac_steps example_constants (example_answers\<lparr>mkdir := Some e\<rparr>)
           (MacExtrasInstaller example_constants 1700000000123 ''/Applications/FreeSO'' None)
           empty_world
         = (Rejected (External e),
            MacExtrasInstaller example_constants 1700000000123 ''/Applications/FreeSO'' None,
            snd (snd (mac_download example_constants (example_answers\<lparr>mkdir := Some e\<rparr>)
              (MacExtrasInstaller example_constants 1700000000123 ''/Applications/FreeSO'' None)
              empty_world)))" for e
    by (rule mac_steps_mkdir_fails) (rule a)+
  have r: "fst (mac_install example_constants (example_answers\<lparr>mkdir := Some e\<rparr>)
         (MacExtrasInstaller example_constants 1700000000123 ''/Applications/FreeSO'' None)
         empty_world) = Rejected (External e)" for e
    by (simp add: mac_install_fst steps)
  have u: "ui (snd (snd (mac_install example_constants (example_answers\<lparr>mkdir := Some e\<rparr>)
         (MacExtrasInstaller example_constants 1700000000123 ''/Applications/FreeSO'' None)
         empty_world)))
     = [AddProgressItem ''FSOProgressItem1700000000'' ''FreeSO MacExtras''
          (INS_IN ''/Applications/FreeSO'') (Downloading (Num 10) (Num 25) (Num 40)) (Num 40),
        SetProgressBar (Num (3602879701896397 / 9007199254740992)),
        AddProgressItem ''FSOProgressItem1700000000'' ''FreeSO MacExtras''
          (INS_IN ''/Applications/FreeSO'') (FailedInstallationOf ''macOS Extras'') (Num 100),
        SetProgressBar (Num 2),
        StopProgressItem ''FSOProgressItem1700000000'']" for e
    by (simp add: mac_install_ui steps example_mac_download_ui [OF a(3)] example_mac_installer)
  from r u show ?thesis by simp
qed

text \<open>
  Claim C4, amended. A step fails when its promise rejects. For each of the four
  installers, \<open>install\<close> rejects with the error of the first step that rejected and
  resolves only when every step resolved. A run whose \<open>install\<close> rejects makes exactly
  one failure notification at 100 per cent, and a run that resolves makes none; the
  notification shows the installer's fixed failure text and not the error.
  \<open>SimitoneInstaller\<close> also shows one failure dialog, which carries the error, and
  \<open>UpdateInstaller\<close> one that does not; \<open>MacExtrasInstaller\<close> and \<open>TSOInstaller\<close> show
  none.
\<close>

theorem step_failure_rejects:
  "fst (mac_install C A this w) =
     (if dl_hasFailed (download A) then Rejected FSO_NETWORK_ERROR
      else (case mkdir A of
              Some err \<Rightarrow> Rejected (External err)
            | None \<Rightarrow> (case unzip_error A of
                         Some err \<Rightarrow> Rejected (External err)
                       | None \<Rightarrow> Resolved ())))
   \<and> fst (tso_install C A this w) =
     (if dl_hasFailed (download A) then Rejected FSO_NETWORK_ERROR
      else (case mkdir A of
              Some err \<Rightarrow> Rejected (External err)
            | None \<Rightarrow>
                (case unzip_error A of
                   Some err \<Rightarrow> Rejected (External err)
                 | None \<Rightarrow>
                     (case snd (cabinet_extract A
                                  (unzip_write (unzipped A)
                                     (dl_run (tempPath this) (download A) (disk w)))
                                  (tso_cab_from C
                                     (unzip_write (unzipped A)
                                        (dl_run (tempPath this) (download A) (disk w))))) of
                        Some e \<Rightarrow> Rejected (TSOExtractionFailed e)
                      | None \<Rightarrow> (case registry A of
                                   Some err \<Rightarrow> Rejected (External err)
                                 | None \<Rightarrow> Resolved ())))))
   \<and> fst (update_install C A this w) =
     (if dl_hasFailed (download A) then Rejected UpdateDownloadFailed else Resolved ())
   \<and> fst (simitone_install A this w) =
     (case release A of
        Inl err \<Rightarrow> Rejected (External err)
      | Inr tag_name \<Rightarrow>
          (if dl_hasFailed (download A) then Rejected FSO_NETWORK_ERROR
           else (case mkdir A of
                   Some err \<Rightarrow> Rejected (External err)
                 | None \<Rightarrow>
                     (case read_error A of
                        Some err \<Rightarrow> Pending
                      | None \<Rightarrow>
                          (case unzip_error A of
                             Some err \<Rightarrow> Rejected (External err)
                           | None \<Rightarrow> (case registry A of
                                        Some err \<Rightarrow> Rejected (External err)
                                      | None \<Rightarrow> Resolved ()))))))
   \<and> failure_items C (ui (snd (snd (mac_install C A this w)))) =
       failure_items C (ui w) @
       (case fst (mac_install C A this w) of
          Resolved v \<Rightarrow> []
        | Rejected e \<Rightarrow>
            [AddProgressItem (mac_key this) (parentComponent this @ '' MacExtras'')
               (INS_IN (textPath C this)) (FailedInstallationOf ''macOS Extras'') (Num 100)]
        | Pending \<Rightarrow> [])
   \<and> failure_items C (ui (snd (snd (tso_install C A this w)))) =
       failure_items C (ui w) @
       (case fst (tso_install C A this w) of
          Resolved v \<Rightarrow> []
        | Rejected e \<Rightarrow>
            [AddProgressItem (tso_key this) ''The Sims Online (FilePlanet)''
               (INS_IN (textPath C this)) TSO_FAILED_INSTALLATION (Num 100)]
        | Pending \<Rightarrow> [])
   \<and> failure_items C (ui (snd (snd (update_install C A this w)))) =
       failure_items C (ui w) @
       (case fst (update_install C A this w) of
          Resolved v \<Rightarrow> []
        | Rejected e \<Rightarrow>
            [AddProgressItem (update_key this) ''FreeSO Launcher''
               (Subtitle (''Downloading from '' @ updateLocation C))
               (Text (update_failed_text C)) (Num 100)]
        | Pending \<Rightarrow> [])
   \<and> failure_items C (ui (snd (snd (simitone_install A this w)))) =
       failure_items C (ui w) @
       (case fst (simitone_install A this w) of
          Resolved v \<Rightarrow> []
        | Rejected e \<Rightarrow>
            [AddProgressItem (simitone_key this)
               (''Simitone Client '' @ simitoneVersion (fst (snd (simitone_install A this w))))
               (Subtitle (''Installing in '' @ path this)) FSO_FAILED_INSTALLATION (Num 100)]
        | Pending \<Rightarrow> [])
   \<and> failure_dialogs (ui (snd (snd (mac_install C A this w)))) = failure_dialogs (ui w)
   \<and> failure_dialogs (ui (snd (snd (tso_install C A this w)))) = failure_dialogs (ui w)
   \<and> failure_dialogs (ui (snd (snd (update_install C A this w)))) =
       failure_dialogs (ui w) @
       (case fst (update_install C A this w) of
          Resolved v \<Rightarrow> [] | Rejected e \<Rightarrow> [ShowFailedUpdateDownload] | Pending \<Rightarrow> [])
   \<and> failure_dialogs (ui (snd (snd (simitone_install A this w)))) =
       failure_dialogs (ui w) @
       (case fst (simitone_install A this w) of
          Resolved v \<Rightarrow> [] | Rejected e \<Rightarrow> [ShowFailedInstall ''Simitone'' e]
        | Pending \<Rightarrow> [])"
  by (intro conjI)
     (rule install_outcome mac_failure_items tso_failure_items update_failure_items
        simitone_failure_items run_failure_dialogs)+


subsection \<open>The download after a run\<close>

lemma simitone_install_disk:
  "disk (snd (snd (simitone_install A this w))) = disk (snd (snd (simitone_steps A this w)))"
  by (simp add: simitone_install_def simitone_end_def simitone_error_def Let_def
        simitone_create_disk emit_def split: prod.splits promise.splits)

lemma simitone_steps_disk:
  "disk (snd (snd (simitone_steps A this w))) =
     (case release A of
        Inl err \<Rightarrow> disk w
      | Inr tag_name \<Rightarrow>
          (if dl_hasFailed (download A)
           then cleanup (tempPath this) (dl_run (tempPath this) (download A) (disk w))
           else (case mkdir A of
                   Some err \<Rightarrow> dl_run (tempPath this) (download A) (disk w)
                 | None \<Rightarrow>
                     (case read_error A of
                        Some err \<Rightarrow>
                          unzip_write (unzipped A) (dl_run (tempPath this) (download A) (disk w))
                      | None \<Rightarrow>
                          (case unzip_error A of
                             Some err \<Rightarrow>
                               unzip_write (unzipped A)
                                 (dl_run (tempPath this) (download A) (disk w))
                           | None \<Rightarrow>
                               cleanup (tempPath this)
                                 (unzip_write (unzipped A)
                                    (dl_run (tempPath this) (download A) (disk w))))))))"
proof (cases "release A")
  case (Inl err)
  then show ?thesis
    by (simp add: simitone_steps_def and_then_def simitone_step1_def)
next
  case (Inr tag_name)
  show ?thesis
  proof (cases "dl_hasFailed (download A)")
    case True
    with Inr show ?thesis
      by (simp add: simitone_steps_def and_then_def simitone_step1_def simitone_download_def
            Let_def on_disk_def poll_disk split: option.splits)
  next
    case False
    show ?thesis
    proof (cases "mkdir A")
      case (Some err)
      with Inr False show ?thesis
        by (simp add: simitone_steps_def and_then_def simitone_step1_def
              simitone_download_def Let_def setupDir_def on_disk_def poll_disk
              split: option.splits)
    next
      case None
      have tp: "tempPath (case tag_name of None \<Rightarrow> this
                          | Some t \<Rightarrow> this\<lparr>simitoneVersion := t\<rparr>) = tempPath this"
        by (simp split: option.splits)
      have there: "tempPath this \<in> existing (dl_run (tempPath this) (download A) (disk w))"
        using False by (simp add: dl_hasFailed_def dl_run_def)
      from Inr False None show ?thesis
        unfolding simitone_steps_def simitone_upto_setupDir [OF Inr False None]
        by (simp add: and_then_def simitone_extract_def Let_def tp there registry_step_def
              on_disk_def poll_disk simitone_fold_disk simitone_create_disk
              split: option.splits)
    qed
  qed
qed

text \<open>
  Claim C1 on the code. A Simitone run whose archive does not unpack (the unzip stream
  emits \<open>error\<close>), or whose folder cannot be created, rejects and leaves its download
  \<open>temp/artifacts-simitone-1700000000.zip\<close> on the disk: \<open>error\<close> does not call
  \<open>cleanup\<close>, and the call in the stream's \<open>error\<close> handler is commented out. The same
  run removes the download when the download itself fails and when every step succeeds.
\<close>

theorem simitone_failure_leaves_download:
  "fst (simitone_install (example_answers\<lparr>unzip_error := Some ''invalid signature''\<rparr>)
         (SimitoneInstaller 1700000000123 ''C:/Games/Simitone'') empty_world)
     = Rejected (External ''invalid signature'')
   \<and> ''temp/artifacts-simitone-1700000000.zip'' \<in>
       existing (disk (snd (snd (simitone_install
         (example_answers\<lparr>unzip_error := Some ''invalid signature''\<rparr>)
         (SimitoneInstaller 1700000000123 ''C:/Games/Simitone'') empty_world))))
   \<and> fst (simitone_install (example_answers\<lparr>mkdir := Some ''EPERM''\<rparr>)
         (SimitoneInstaller 1700000000123 ''C:/Games/Simitone'') empty_world)
     = Rejected (External ''EPERM'')
   \<and> ''temp/artifacts-simitone-1700000000.zip'' \<in>
       existing (disk (snd (snd (simitone_install (example_answers\<lparr>mkdir := Some ''EPERM''\<rparr>)
         (SimitoneInstaller 1700000000123 ''C:/Games/Simitone'') empty_world))))
   \<and> ''temp/artifacts-simitone-1700000000.zip'' \<notin>
       existing (disk (snd (snd (simitone_install (example_answers\<lparr>download := DownloadFailed True\<rparr>)
         (SimitoneInstaller 1700000000123 ''C:/Games/Simitone'') empty_world))))
   \<and> ''temp/artifacts-simitone-1700000000.zip'' \<notin>
       existing (disk (snd (snd (simitone_install example_answers
         (SimitoneInstaller 1700000000123 ''C:/Games/Simitone'') empty_world))))"
  by (simp add: simitone_install_fst simitone_steps_fst simitone_install_disk simitone_steps_disk
        example_simitone_installer example_answers_def empty_world_def dl_hasFailed_def
        dl_run_def unzip_write_def cleanup_def fs_stat_def fs_unlink_def)


subsection \<open>The timer after the halt\<close>





end
